theory Spec2Isabelle
  imports Complex_Main "HOL-Library.Multiset" "HOL-Library.List_Lexorder" "HOL-Library.Char_ord"
begin

section \<open>Data model (db/realmSchemas.ts)\<close>

text \<open>
  A JavaScript \<open>Date\<close> is modelled by its time value, the number of milliseconds since the
  epoch. Strings are character lists. The wall clock \<open>now()\<close> and the UUID generator
  \<open>generateId()\<close> are inputs of the operations that call them.
\<close>

type_synonym date = int

datatype TransactionType = Expense | Income

datatype SyncStatus = Local | Synced

record Transaction =
  txn_id :: string
  txn_type :: TransactionType
  amountCents :: int
  categoryId :: string
  timestamp :: date
  txn_updatedAt :: date
  syncStatus :: SyncStatus
  deleted :: bool

record Category =
  cat_id :: string
  cat_name :: string
  cat_icon :: string
  userDefined :: bool
  createdAt :: date
  cat_updatedAt :: date

text \<open>
  The Realm store holds one table per object class. A table is the list of its objects;
  Realm keeps the primary key \<open>id\<close> unique in each table (\<open>pk_unique\<close>).
\<close>

record realm =
  transactions :: "Transaction list"
  categories :: "Category list"

definition pk_unique :: "realm \<Rightarrow> bool" where
  "pk_unique r \<longleftrightarrow> distinct (map txn_id (transactions r)) \<and> distinct (map cat_id (categories r))"

definition empty_realm :: realm where
  "empty_realm = \<lparr>transactions = [], categories = []\<rparr>"

text \<open>\<open>realm.objectForPrimaryKey(Class, id)\<close>: the object with that key, if any.\<close>

definition transactionForPrimaryKey :: "realm \<Rightarrow> string \<Rightarrow> Transaction option" where
  "transactionForPrimaryKey r k = find (\<lambda>t. txn_id t = k) (transactions r)"

definition categoryForPrimaryKey :: "realm \<Rightarrow> string \<Rightarrow> Category option" where
  "categoryForPrimaryKey r k = find (\<lambda>c. cat_id c = k) (categories r)"

text \<open>
  \<open>realm.create(Class, values, UpdateMode.Modified)\<close> with every property given: the object
  with that primary key takes the given values, or a new object is added when there is none.
\<close>

definition create_or_update_txn :: "Transaction \<Rightarrow> Transaction list \<Rightarrow> Transaction list" where
  "create_or_update_txn v ts =
     (if \<exists>t \<in> set ts. txn_id t = txn_id v
      then map (\<lambda>t. if txn_id t = txn_id v then v else t) ts
      else ts @ [v])"

definition create_or_update_cat :: "Category \<Rightarrow> Category list \<Rightarrow> Category list" where
  "create_or_update_cat v cs =
     (if \<exists>c \<in> set cs. cat_id c = cat_id v
      then map (\<lambda>c. if cat_id c = cat_id v then v else c) cs
      else cs @ [v])"

text \<open>JavaScript truthiness of an optional string: \<open>undefined\<close> and \<open>''\<close> are falsy.\<close>

definition truthy_string :: "string option \<Rightarrow> bool" where
  "truthy_string s = (case s of None \<Rightarrow> False | Some v \<Rightarrow> v \<noteq> [])"

section \<open>Repository layer (db/repository.ts)\<close>

record TransactionDraft =
  td_id :: "string option"
  td_type :: TransactionType
  td_amountCents :: int
  td_categoryId :: string
  td_timestamp :: "date option"
  td_syncStatus :: "SyncStatus option"
  td_deleted :: "bool option"

record CategoryDraft =
  cd_id :: "string option"
  cd_name :: string
  cd_icon :: string
  cd_userDefined :: "bool option"
  cd_createdAt :: "date option"
  cd_updatedAt :: "date option"

text \<open>The operator \<open>a ?? b\<close>.\<close>

definition nullish :: "'a option \<Rightarrow> 'a \<Rightarrow> 'a" where
  "nullish a b = (case a of None \<Rightarrow> b | Some v \<Rightarrow> v)"

text \<open>
  \<open>upsertTransaction(draft)\<close>. \<open>fresh\<close> is the identifier \<open>generateId()\<close> returns and \<open>now\<close> the
  clock reading. The draft's \<open>timestamp\<close> is a \<open>Date\<close> by its type; the code still falls
  back to \<open>now()\<close> for a missing one, and so does the model.
\<close>

definition upsertTransaction :: "string \<Rightarrow> date \<Rightarrow> TransactionDraft \<Rightarrow> realm \<Rightarrow> string \<times> realm" where
  "upsertTransaction fresh now draft r =
     (let k = nullish (td_id draft) fresh;
          v = \<lparr>txn_id = k, txn_type = td_type draft, amountCents = td_amountCents draft,
               categoryId = td_categoryId draft, timestamp = nullish (td_timestamp draft) now,
               txn_updatedAt = now,
               syncStatus = nullish (td_syncStatus draft) Local,
               deleted = nullish (td_deleted draft) False\<rparr>
      in (k, r\<lparr>transactions := create_or_update_txn v (transactions r)\<rparr>))"

definition softDeleteTransaction :: "date \<Rightarrow> string \<Rightarrow> realm \<Rightarrow> bool \<times> realm" where
  "softDeleteTransaction now k r =
     (case transactionForPrimaryKey r k of
        None \<Rightarrow> (False, r)
      | Some txn \<Rightarrow>
          (True, r\<lparr>transactions :=
             map (\<lambda>t. if txn_id t = k
                       then t\<lparr>deleted := True, txn_updatedAt := now, syncStatus := Local\<rparr>
                       else t) (transactions r)\<rparr>))"

definition purgeTransaction :: "string \<Rightarrow> realm \<Rightarrow> bool \<times> realm" where
  "purgeTransaction k r =
     (case transactionForPrimaryKey r k of
        None \<Rightarrow> (False, r)
      | Some txn \<Rightarrow> (True, r\<lparr>transactions := filter (\<lambda>t. txn_id t \<noteq> k) (transactions r)\<rparr>))"

definition upsertCategory :: "string \<Rightarrow> date \<Rightarrow> CategoryDraft \<Rightarrow> realm \<Rightarrow> string \<times> realm" where
  "upsertCategory fresh now draft r =
     (let k = nullish (cd_id draft) fresh;
          timestamp = now;
          existing = categoryForPrimaryKey r k;
          created = nullish (map_option createdAt existing) (nullish (cd_createdAt draft) timestamp);
          updated = nullish (cd_updatedAt draft) timestamp;
          v = \<lparr>cat_id = k, cat_name = cd_name draft, cat_icon = cd_icon draft,
               userDefined = nullish (cd_userDefined draft) True,
               createdAt = created, cat_updatedAt = updated\<rparr>
      in (k, r\<lparr>categories := create_or_update_cat v (categories r)\<rparr>))"

text \<open>
  \<open>deleteCategory(id, reassignedCategoryId?)\<close>. The reassignment and the deletion happen in
  one \<open>realm.write\<close> block, so the function is one transition of the store.
\<close>

definition reassign :: "date \<Rightarrow> string \<Rightarrow> string \<Rightarrow> Transaction \<Rightarrow> Transaction" where
  "reassign now k new txn =
     (if categoryId txn = k
      then txn\<lparr>categoryId := new, txn_updatedAt := now, syncStatus := Local\<rparr>
      else txn)"

definition deleteCategory :: "date \<Rightarrow> string \<Rightarrow> string option \<Rightarrow> realm \<Rightarrow> bool \<times> realm" where
  "deleteCategory now k reassignedCategoryId r =
     (case categoryForPrimaryKey r k of
        None \<Rightarrow> (False, r)
      | Some category \<Rightarrow>
          (let r1 = (case reassignedCategoryId of
                       None \<Rightarrow> r
                     | Some new \<Rightarrow>
                         if truthy_string reassignedCategoryId
                         then r\<lparr>transactions := map (reassign now k new) (transactions r)\<rparr>
                         else r)
           in (True, r1\<lparr>categories := filter (\<lambda>c. cat_id c \<noteq> k) (categories r1)\<rparr>)))"

section \<open>Category service (services/categories.ts)\<close>

definition DEFAULT_CATEGORIES :: "(string \<times> string \<times> string) list" where
  "DEFAULT_CATEGORIES =
     [(''cat-food'', ''Food & Drink'', ''fast-food-outline''),
      (''cat-transport'', ''Transport'', ''bus-outline''),
      (''cat-entertainment'', ''Entertainment'', ''game-controller-outline''),
      (''cat-school'', ''School'', ''book-outline''),
      (''cat-shopping'', ''Shopping'', ''cart-outline''),
      (''cat-other'', ''Other'', ''apps-outline'')]"

text \<open>
  \<open>realm.create(Category, values)\<close> without an update mode throws when an object with the
  same primary key exists; \<open>None\<close> is the thrown exception.
\<close>

definition realm_create_cat :: "Category \<Rightarrow> realm \<Rightarrow> realm option" where
  "realm_create_cat v r =
     (if \<exists>c \<in> set (categories r). cat_id c = cat_id v then None
      else Some (r\<lparr>categories := categories r @ [v]\<rparr>))"

text \<open>One iteration of the seeding loop, for the default \<open>(id, name, icon)\<close>.\<close>

definition default_category :: "date \<Rightarrow> string \<times> string \<times> string \<Rightarrow> Category" where
  "default_category now d =
     \<lparr>cat_id = fst d, cat_name = fst (snd d), cat_icon = snd (snd d), userDefined = False,
      createdAt = now, cat_updatedAt = now\<rparr>"

definition seed_category :: "date \<Rightarrow> string \<times> string \<times> string \<Rightarrow> realm \<Rightarrow> realm option" where
  "seed_category now d r =
     (case categoryForPrimaryKey r (fst d) of
        None \<Rightarrow> realm_create_cat (default_category now d) r
      | Some existing \<Rightarrow> Some r)"

fun seed_each :: "date \<Rightarrow> (string \<times> string \<times> string) list \<Rightarrow> realm \<Rightarrow> realm option" where
  "seed_each now [] r = Some r"
| "seed_each now (d # ds) r =
     (case seed_category now d r of None \<Rightarrow> None | Some r' \<Rightarrow> seed_each now ds r')"

text \<open>The body of the seeding effect: the \<open>realm.write\<close> block over \<open>DEFAULT_CATEGORIES\<close>.\<close>

definition seedDefaultCategories :: "date \<Rightarrow> realm \<Rightarrow> realm option" where
  "seedDefaultCategories now r = seed_each now DEFAULT_CATEGORIES r"

text \<open>
  The effect of one hook instance. Its state is the \<open>seededRef\<close> flag and the store. The
  flag is set before the write block is entered; a throwing write block is rolled back by
  Realm and its exception leaves the effect (\<open>Thrown\<close>).
\<close>

datatype effect_end = Returned | Thrown

definition seedingEffect :: "date \<Rightarrow> bool \<times> realm \<Rightarrow> effect_end \<times> (bool \<times> realm)" where
  "seedingEffect now st =
     (if fst st then (Returned, st)
      else (case seedDefaultCategories now (snd st) of
              None \<Rightarrow> (Thrown, (True, snd st))
            | Some r' \<Rightarrow> (Returned, (True, r'))))"

text \<open>The routine run once per clock reading of the list, each run on the store the previous left.\<close>

fun seed_repeatedly :: "date list \<Rightarrow> realm \<Rightarrow> realm option" where
  "seed_repeatedly [] r = Some r"
| "seed_repeatedly (now # nows) r =
     (case seedDefaultCategories now r of None \<Rightarrow> None | Some r' \<Rightarrow> seed_repeatedly nows r')"

definition getTransactionCount :: "realm \<Rightarrow> string \<Rightarrow> nat" where
  "getTransactionCount r k =
     length (filter (\<lambda>t. categoryId t = k \<and> deleted t = False) (transactions r))"

definition removeCategory :: "date \<Rightarrow> string \<Rightarrow> string option \<Rightarrow> realm \<Rightarrow> bool \<times> realm" where
  "removeCategory now k replacementId r = deleteCategory now k replacementId r"

text \<open>
  The category screen's \<open>handleConfirmDelete\<close>: \<open>deleteState\<close> holds the category chosen for
  deletion with the transaction count shown for it. The result is the \<open>deleteError\<close> set by
  the handler and the store.
\<close>

record DeleteState =
  ds_id :: string
  ds_name :: string
  ds_count :: nat

definition handleConfirmDelete ::
    "date \<Rightarrow> DeleteState option \<Rightarrow> string option \<Rightarrow> realm \<Rightarrow> string option \<times> realm" where
  "handleConfirmDelete now deleteState replacementId r =
     (case deleteState of
        None \<Rightarrow> (None, r)
      | Some ds \<Rightarrow>
          if ds_count ds > 0 \<and> \<not> truthy_string replacementId
          then (Some ''Select a replacement category'', r)
          else (None, snd (removeCategory now (ds_id ds) replacementId r)))"

section \<open>Transaction service (services/transactions.ts)\<close>

text \<open>The repository's view of all transactions, by \<open>timestamp\<close> descending.\<close>

definition orderedTransactions :: "realm \<Rightarrow> Transaction list" where
  "orderedTransactions r = rev (sort_key timestamp (transactions r))"

definition activeTransactions :: "realm \<Rightarrow> Transaction list" where
  "activeTransactions r = filter (\<lambda>t. deleted t = False) (orderedTransactions r)"

definition getTransactionById :: "realm \<Rightarrow> string \<Rightarrow> Transaction option" where
  "getTransactionById r k = transactionForPrimaryKey r k"

definition markDeleted :: "date \<Rightarrow> string \<Rightarrow> realm \<Rightarrow> bool \<times> realm" where
  "markDeleted now k r = softDeleteTransaction now k r"

text \<open>
  The aggregates take an optional collection; \<open>None\<close> is the omitted argument, for which the
  default parameter value \<open>activeTransactions\<close> is used.
\<close>

definition totalIncomeCents :: "realm \<Rightarrow> Transaction list option \<Rightarrow> int" where
  "totalIncomeCents r source =
     sum_list (map amountCents (filter (\<lambda>t. txn_type t = Income) (nullish source (activeTransactions r))))"

definition totalExpenseCents :: "realm \<Rightarrow> Transaction list option \<Rightarrow> int" where
  "totalExpenseCents r source =
     sum_list (map amountCents (filter (\<lambda>t. txn_type t = Expense) (nullish source (activeTransactions r))))"

definition remainingBalanceCents :: "realm \<Rightarrow> Transaction list option \<Rightarrow> int" where
  "remainingBalanceCents r source =
     (let src = nullish source (activeTransactions r)
      in totalIncomeCents r (Some src) - totalExpenseCents r (Some src))"

section \<open>Maintenance job (services/maintenance.ts)\<close>

record maintenance_config =
  ENABLE_TOMBSTONE_PURGE :: bool
  TOMBSTONE_RETENTION_DAYS :: int
  PURGE_BATCH_SIZE :: nat
  PURGE_INTERVAL_DAYS :: int

definition MAINTENANCE_CONFIG :: maintenance_config where
  "MAINTENANCE_CONFIG =
     \<lparr>ENABLE_TOMBSTONE_PURGE = False, TOMBSTONE_RETENTION_DAYS = 90,
      PURGE_BATCH_SIZE = 100, PURGE_INTERVAL_DAYS = 7\<rparr>"

subsection \<open>The \<open>Date\<close> methods used by the job\<close>

text \<open>
  \<open>getDate\<close> and \<open>setDate\<close> work on the local time of the host, as ECMAScript defines them.
  A time value is a number of milliseconds since the epoch. The host's time zone is a
  parameter: its offset from UTC in milliseconds, for an instant given in UTC
  (\<open>LocalTZA(t, true)\<close>) and for a reading of the local clock (\<open>LocalTZA(t, false)\<close>).
\<close>

record timezone =
  LocalTZA_utc :: "int \<Rightarrow> int"
  LocalTZA_local :: "int \<Rightarrow> int"

definition msPerDay :: int where
  "msPerDay = 86400000"

definition LocalTime :: "timezone \<Rightarrow> int \<Rightarrow> int" where
  "LocalTime tz t = t + LocalTZA_utc tz t"

definition UTC :: "timezone \<Rightarrow> int \<Rightarrow> int" where
  "UTC tz t = t - LocalTZA_local tz t"

definition Day :: "int \<Rightarrow> int" where
  "Day t = t div msPerDay"

definition TimeWithinDay :: "int \<Rightarrow> int" where
  "TimeWithinDay t = t mod msPerDay"

definition DaysInYear :: "int \<Rightarrow> int" where
  "DaysInYear y =
     (if y mod 4 \<noteq> 0 then 365 else if y mod 100 \<noteq> 0 then 366 else if y mod 400 \<noteq> 0 then 365 else 366)"

definition DayFromYear :: "int \<Rightarrow> int" where
  "DayFromYear y = 365 * (y - 1970) + (y - 1969) div 4 - (y - 1901) div 100 + (y - 1601) div 400"

definition TimeFromYear :: "int \<Rightarrow> int" where
  "TimeFromYear y = msPerDay * DayFromYear y"

text \<open>
  \<open>YearFromTime(t)\<close> is the largest year \<open>y\<close> with \<open>TimeFromYear(y) \<le> t\<close>. A year has 365 or
  366 days, so it lies among the few years around \<open>1970 + Day(t) / 365\<close> that are searched.
\<close>

definition YearFromTime :: "int \<Rightarrow> int" where
  "YearFromTime t =
     (let d = Day t;
          lo = 1970 + min (d div 365) (d div 366) - 1;
          hi = 1970 + max (d div 365) (d div 366) + 1
      in foldl (\<lambda>y c. if TimeFromYear c \<le> t then c else y) lo [lo..hi])"

definition InLeapYear :: "int \<Rightarrow> bool" where
  "InLeapYear t = (DaysInYear (YearFromTime t) = 366)"

definition DayWithinYear :: "int \<Rightarrow> int" where
  "DayWithinYear t = Day t - DayFromYear (YearFromTime t)"

definition MonthFromTime :: "int \<Rightarrow> int" where
  "MonthFromTime t =
     (let d = DayWithinYear t; l = (if InLeapYear t then 1 else 0)
      in if d < 31 then 0
         else if d < 59 + l then 1
         else if d < 90 + l then 2
         else if d < 120 + l then 3
         else if d < 151 + l then 4
         else if d < 181 + l then 5
         else if d < 212 + l then 6
         else if d < 243 + l then 7
         else if d < 273 + l then 8
         else if d < 304 + l then 9
         else if d < 334 + l then 10
         else 11)"

definition DateFromTime :: "int \<Rightarrow> int" where
  "DateFromTime t =
     (let d = DayWithinYear t; l = (if InLeapYear t then 1 else 0); m = MonthFromTime t
      in if m = 0 then d + 1
         else if m = 1 then d - 30
         else if m = 2 then d - 58 - l
         else if m = 3 then d - 89 - l
         else if m = 4 then d - 119 - l
         else if m = 5 then d - 150 - l
         else if m = 6 then d - 180 - l
         else if m = 7 then d - 211 - l
         else if m = 8 then d - 242 - l
         else if m = 9 then d - 272 - l
         else if m = 10 then d - 303 - l
         else d - 333 - l)"

text \<open>
  \<open>MakeDay(year, month, date)\<close>: the day number of the first of the month \<open>month mod 12\<close> of
  the year \<open>year + floor(month / 12)\<close>, plus \<open>date - 1\<close>. \<open>days_before_month\<close> is the number
  of days of the year that precede the month.
\<close>

definition days_before_month :: "bool \<Rightarrow> int \<Rightarrow> int" where
  "days_before_month leap mn =
     (let l = (if leap then 1 else 0)
      in if mn = 0 then 0
         else if mn = 1 then 31
         else if mn = 2 then 59 + l
         else if mn = 3 then 90 + l
         else if mn = 4 then 120 + l
         else if mn = 5 then 151 + l
         else if mn = 6 then 181 + l
         else if mn = 7 then 212 + l
         else if mn = 8 then 243 + l
         else if mn = 9 then 273 + l
         else if mn = 10 then 304 + l
         else 334 + l)"

definition MakeDay :: "int \<Rightarrow> int \<Rightarrow> int \<Rightarrow> int" where
  "MakeDay year month dt =
     (let ym = year + month div 12; mn = month mod 12
      in DayFromYear ym + days_before_month (DaysInYear ym = 366) mn + dt - 1)"

definition MakeDate :: "int \<Rightarrow> int \<Rightarrow> int" where
  "MakeDate day time = day * msPerDay + time"

text \<open>A time value beyond 8.64e15 ms is no date: \<open>TimeClip\<close> gives \<open>NaN\<close>, here \<open>None\<close>.\<close>

definition TimeClip :: "int \<Rightarrow> int option" where
  "TimeClip t = (if \<bar>t\<bar> > 8640000000000000 then None else Some t)"

definition getDate :: "timezone \<Rightarrow> date \<Rightarrow> int" where
  "getDate tz t = DateFromTime (LocalTime tz t)"

definition setDate :: "timezone \<Rightarrow> date \<Rightarrow> int \<Rightarrow> date option" where
  "setDate tz t dt =
     (let lt = LocalTime tz t;
          newDate = MakeDate (MakeDay (YearFromTime lt) (MonthFromTime lt) dt) (TimeWithinDay lt)
      in TimeClip (UTC tz newDate))"

subsection \<open>The purge\<close>

text \<open>
  \<open>retentionThreshold.setDate(retentionThreshold.getDate() - retentionDays)\<close> on the
  current date \<open>now\<close>. The retention days are taken as an integer, as the constant is.
\<close>

definition retentionThreshold :: "timezone \<Rightarrow> date \<Rightarrow> int \<Rightarrow> date option" where
  "retentionThreshold tz now retentionDays = setDate tz now (getDate tz now - retentionDays)"

text \<open>
  The configuration constants are a parameter, so that the enabled path can be examined as
  well; the program's functions are the instances at \<open>MAINTENANCE_CONFIG\<close>. A comparison
  with an invalid date is false.
\<close>

definition isTombstoneEligibleForPurge_cfg ::
    "maintenance_config \<Rightarrow> timezone \<Rightarrow> date \<Rightarrow> Transaction \<Rightarrow> int option \<Rightarrow> bool" where
  "isTombstoneEligibleForPurge_cfg cfg tz now transaction retentionDays =
     (if \<not> deleted transaction then False
      else if syncStatus transaction \<noteq> Synced then False
      else (case retentionThreshold tz now (nullish retentionDays (TOMBSTONE_RETENTION_DAYS cfg)) of
              None \<Rightarrow> False
            | Some threshold \<Rightarrow> txn_updatedAt transaction < threshold))"

definition isTombstoneEligibleForPurge :: "timezone \<Rightarrow> date \<Rightarrow> Transaction \<Rightarrow> int option \<Rightarrow> bool" where
  "isTombstoneEligibleForPurge = isTombstoneEligibleForPurge_cfg MAINTENANCE_CONFIG"

text \<open>The loop that fills \<open>toPurge\<close>, leaving at the batch size.\<close>

fun collect_toPurge ::
    "maintenance_config \<Rightarrow> timezone \<Rightarrow> date \<Rightarrow> Transaction list \<Rightarrow> Transaction list \<Rightarrow> Transaction list" where
  "collect_toPurge cfg tz now [] toPurge = toPurge"
| "collect_toPurge cfg tz now (t # ts) toPurge =
     (if isTombstoneEligibleForPurge_cfg cfg tz now t None
      then (let toPurge' = toPurge @ [t]
            in if length toPurge' \<ge> PURGE_BATCH_SIZE cfg then toPurge'
               else collect_toPurge cfg tz now ts toPurge')
      else collect_toPurge cfg tz now ts toPurge)"

text \<open>\<open>realm.delete(transaction)\<close> for each collected object, counting them.\<close>

fun delete_each :: "Transaction list \<Rightarrow> nat \<times> realm \<Rightarrow> nat \<times> realm" where
  "delete_each [] st = st"
| "delete_each (t # ts) st =
     delete_each ts
       (fst st + 1, (snd st)\<lparr>transactions := filter (\<lambda>x. txn_id x \<noteq> txn_id t) (transactions (snd st))\<rparr>)"

definition purgeOldTombstones_cfg ::
    "maintenance_config \<Rightarrow> timezone \<Rightarrow> date \<Rightarrow> realm \<Rightarrow> nat \<times> realm" where
  "purgeOldTombstones_cfg cfg tz now r =
     (if \<not> ENABLE_TOMBSTONE_PURGE cfg then (0, r)
      else (let deletedTransactions =
                  filter (\<lambda>t. deleted t = True \<and> syncStatus t = Synced) (transactions r);
                toPurge = collect_toPurge cfg tz now deletedTransactions []
            in delete_each toPurge (0, r)))"

definition purgeOldTombstones :: "timezone \<Rightarrow> date \<Rightarrow> realm \<Rightarrow> nat \<times> realm" where
  "purgeOldTombstones = purgeOldTombstones_cfg MAINTENANCE_CONFIG"

section \<open>Sample stores\<close>

text \<open>Small concrete stores on which the operations are run.\<close>

definition sample_txn :: Transaction where
  "sample_txn =
     \<lparr>txn_id = ''t1'', txn_type = Expense, amountCents = 250, categoryId = ''c'',
      timestamp = 10, txn_updatedAt = 10, syncStatus = Synced, deleted = False\<rparr>"

definition sample_cat :: Category where
  "sample_cat =
     \<lparr>cat_id = ''c'', cat_name = ''Coffee'', cat_icon = ''cafe-outline'', userDefined = True,
      createdAt = 5, cat_updatedAt = 5\<rparr>"

definition sample_realm :: realm where
  "sample_realm = \<lparr>transactions = [sample_txn], categories = [sample_cat]\<rparr>"

text \<open>A store seeded at time 7 to which the user has added a category and a transaction.\<close>

definition seeded_realm :: realm where
  "seeded_realm =
     \<lparr>transactions = [sample_txn],
      categories = map (default_category 7) DEFAULT_CATEGORIES @ [sample_cat]\<rparr>"

text \<open>The update \<open>softDeleteTransaction\<close> applies to the object with key \<open>k\<close>.\<close>

definition tombstone :: "date \<Rightarrow> string \<Rightarrow> Transaction \<Rightarrow> Transaction" where
  "tombstone now k t =
     (if txn_id t = k then t\<lparr>deleted := True, txn_updatedAt := now, syncStatus := Local\<rparr> else t)"

definition sample_deleted :: Transaction where
  "sample_deleted =
     \<lparr>txn_id = ''t2'', txn_type = Income, amountCents = 1000, categoryId = ''c'',
      timestamp = 20, txn_updatedAt = 20, syncStatus = Synced, deleted = True\<rparr>"

definition sample_income :: Transaction where
  "sample_income =
     \<lparr>txn_id = ''t3'', txn_type = Income, amountCents = 4000, categoryId = ''c'',
      timestamp = 30, txn_updatedAt = 30, syncStatus = Local, deleted = False\<rparr>"

definition ledger_realm :: realm where
  "ledger_realm = \<lparr>transactions = [sample_txn, sample_deleted, sample_income], categories = [sample_cat]\<rparr>"

text \<open>
  A configuration with the purge switched on. Two time zones: UTC, and a zone with the
  offsets of America/New York for the year from November 2023 (UTC-5, and UTC-4 from
  2024-03-10T07:00Z to 2024-11-03T06:00Z; a local reading that a change skips or repeats
  is read with the offset before the change).
\<close>

definition enabled_config :: maintenance_config where
  "enabled_config = MAINTENANCE_CONFIG\<lparr>ENABLE_TOMBSTONE_PURGE := True\<rparr>"

definition utc_zone :: timezone where
  "utc_zone = \<lparr>LocalTZA_utc = (\<lambda>t. 0), LocalTZA_local = (\<lambda>t. 0)\<rparr>"

definition new_york :: timezone where
  "new_york =
     \<lparr>LocalTZA_utc = (\<lambda>t. if 1710054000000 \<le> t \<and> t < 1730613600000 then - 14400000 else - 18000000),
      LocalTZA_local = (\<lambda>t. if 1710039600000 \<le> t \<and> t < 1730599200000 then - 14400000 else - 18000000)\<rparr>"

definition tombstone_at :: "string \<Rightarrow> SyncStatus \<Rightarrow> date \<Rightarrow> Transaction" where
  "tombstone_at k st u =
     \<lparr>txn_id = k, txn_type = Expense, amountCents = 100, categoryId = ''c'', timestamp = 0,
      txn_updatedAt = u, syncStatus = st, deleted = True\<rparr>"

text \<open>
  The clock reads 2024-03-15T12:00Z. The store holds four tombstones: two from the epoch,
  one an hour old, and one updated 2023-12-16T12:30Z, 90 days less half an hour before.
\<close>

definition purge_time :: date where
  "purge_time = 1710504000000"

definition tombstone_realm :: realm where
  "tombstone_realm =
     \<lparr>transactions = [tombstone_at ''old-local'' Local 0, tombstone_at ''old-synced'' Synced 0,
                      tombstone_at ''recent'' Synced 1710500400000,
                      tombstone_at ''edge'' Synced 1702729800000],
      categories = []\<rparr>"

section \<open>Remote store (services/supabase.ts)\<close>

text \<open>
  The rows of the remote tables \<open>transactions\<close> and \<open>categories\<close>. The ISO strings of the
  timestamp columns are modelled by the time value they denote, so \<open>toISOString\<close> and
  \<open>new Date(string)\<close> are the identity.
\<close>

record RemoteTransaction =
  rt_id :: string
  rt_user_id :: string
  rt_type :: TransactionType
  rt_amount_cents :: int
  rt_category_id :: string
  rt_timestamp :: date
  rt_deleted_at :: "date option"
  rt_created_at :: date
  rt_updated_at :: date

record RemoteCategory =
  rc_id :: string
  rc_user_id :: string
  rc_name :: string
  rc_icon :: string
  rc_deleted_at :: "date option"
  rc_created_at :: date
  rc_updated_at :: date

text \<open>A \<open>select('*')\<close> query as the client builds it: the table and the filters added.\<close>

datatype query_filter = Eq_user_id string | Gt_updated_at date | Is_deleted_at_null

record select_query =
  q_table :: string
  q_filters :: "query_filter list"

definition from_select_all :: "string \<Rightarrow> select_query" where
  "from_select_all t = \<lparr>q_table = t, q_filters = []\<rparr>"

definition add_filter :: "query_filter \<Rightarrow> select_query \<Rightarrow> select_query" where
  "add_filter f q = q\<lparr>q_filters := q_filters q @ [f]\<rparr>"

text \<open>The remote store answers a query with the rows of the table that pass every filter.\<close>

fun txn_passes :: "RemoteTransaction \<Rightarrow> query_filter \<Rightarrow> bool" where
  "txn_passes row (Eq_user_id u) = (rt_user_id row = u)"
| "txn_passes row (Gt_updated_at t) = (rt_updated_at row > t)"
| "txn_passes row Is_deleted_at_null = (rt_deleted_at row = None)"

fun cat_passes :: "RemoteCategory \<Rightarrow> query_filter \<Rightarrow> bool" where
  "cat_passes row (Eq_user_id u) = (rc_user_id row = u)"
| "cat_passes row (Gt_updated_at t) = (rc_updated_at row > t)"
| "cat_passes row Is_deleted_at_null = (rc_deleted_at row = None)"

definition select_transactions :: "select_query \<Rightarrow> RemoteTransaction list \<Rightarrow> RemoteTransaction list" where
  "select_transactions q rows = filter (\<lambda>row. list_all (txn_passes row) (q_filters q)) rows"

definition select_categories :: "select_query \<Rightarrow> RemoteCategory list \<Rightarrow> RemoteCategory list" where
  "select_categories q rows = filter (\<lambda>row. list_all (cat_passes row) (q_filters q)) rows"

text \<open>
  The remote service is outside the program. Each call to it ends in one of four ways: it
  succeeds, it answers with an error object, or the client throws, an \<open>Error\<close> with a
  message or some other value. The service's state lists the outcomes of the calls to
  come; when the list is used up, calls succeed. \<open>queries_asked\<close> is a record of the
  \<open>select\<close> queries the client has sent, in order; the program does not read it.
\<close>

datatype outcome = Succeeds | RespondsError string | ThrowsError string | ThrowsOther

datatype thrown = Error string | NonError

record supabase =
  session_user :: "string option"
  remote_transactions :: "RemoteTransaction list"
  remote_categories :: "RemoteCategory list"
  outcomes :: "outcome list"
  queries_asked :: "select_query list"

definition next_outcome :: "supabase \<Rightarrow> outcome \<times> supabase" where
  "next_outcome sb = (case outcomes sb of [] \<Rightarrow> (Succeeds, sb) | x # xs \<Rightarrow> (x, sb\<lparr>outcomes := xs\<rparr>))"

text \<open>\<open>supabase.auth.getUser()\<close>: the \<open>user\<close> of the answer, \<open>null\<close> when the call reports an error.\<close>

definition auth_getUser :: "supabase \<Rightarrow> (thrown + string option) \<times> supabase" where
  "auth_getUser sb =
     (case next_outcome sb of
        (Succeeds, sb') \<Rightarrow> (Inr (session_user sb'), sb')
      | (RespondsError m, sb') \<Rightarrow> (Inr None, sb')
      | (ThrowsError m, sb') \<Rightarrow> (Inl (Error m), sb')
      | (ThrowsOther, sb') \<Rightarrow> (Inl NonError, sb'))"

text \<open>The answer \<open>{ data, error }\<close> of a query; \<open>resp_error\<close> is \<open>error.message\<close>.\<close>

record 'a response =
  resp_data :: "'a option"
  resp_error :: "string option"

definition run_select_transactions ::
    "select_query \<Rightarrow> supabase \<Rightarrow> (thrown + RemoteTransaction list response) \<times> supabase" where
  "run_select_transactions q sb =
     (case next_outcome (sb\<lparr>queries_asked := queries_asked sb @ [q]\<rparr>) of
        (Succeeds, sb') \<Rightarrow>
          (Inr \<lparr>resp_data = Some (select_transactions q (remote_transactions sb')), resp_error = None\<rparr>, sb')
      | (RespondsError m, sb') \<Rightarrow> (Inr \<lparr>resp_data = None, resp_error = Some m\<rparr>, sb')
      | (ThrowsError m, sb') \<Rightarrow> (Inl (Error m), sb')
      | (ThrowsOther, sb') \<Rightarrow> (Inl NonError, sb'))"

definition run_select_categories ::
    "select_query \<Rightarrow> supabase \<Rightarrow> (thrown + RemoteCategory list response) \<times> supabase" where
  "run_select_categories q sb =
     (case next_outcome (sb\<lparr>queries_asked := queries_asked sb @ [q]\<rparr>) of
        (Succeeds, sb') \<Rightarrow>
          (Inr \<lparr>resp_data = Some (select_categories q (remote_categories sb')), resp_error = None\<rparr>, sb')
      | (RespondsError m, sb') \<Rightarrow> (Inr \<lparr>resp_data = None, resp_error = Some m\<rparr>, sb')
      | (ThrowsError m, sb') \<Rightarrow> (Inl (Error m), sb')
      | (ThrowsOther, sb') \<Rightarrow> (Inl NonError, sb'))"

text \<open>
  The rows the client sends in an \<open>upsert(..., { onConflict: 'id' })\<close>. They carry no
  \<open>created_at\<close>: a row with the same \<open>id\<close> keeps its own, a new row gets the server's time.
\<close>

record TransactionUpsert =
  tu_id :: string
  tu_user_id :: string
  tu_type :: TransactionType
  tu_amount_cents :: int
  tu_category_id :: string
  tu_timestamp :: date
  tu_deleted_at :: "date option"
  tu_updated_at :: date

record CategoryUpsert =
  cu_id :: string
  cu_user_id :: string
  cu_name :: string
  cu_icon :: string
  cu_deleted_at :: "date option"
  cu_updated_at :: date

definition remote_txn_of :: "date \<Rightarrow> TransactionUpsert \<Rightarrow> RemoteTransaction" where
  "remote_txn_of created u =
     \<lparr>rt_id = tu_id u, rt_user_id = tu_user_id u, rt_type = tu_type u,
      rt_amount_cents = tu_amount_cents u, rt_category_id = tu_category_id u,
      rt_timestamp = tu_timestamp u, rt_deleted_at = tu_deleted_at u,
      rt_created_at = created, rt_updated_at = tu_updated_at u\<rparr>"

definition remote_cat_of :: "date \<Rightarrow> CategoryUpsert \<Rightarrow> RemoteCategory" where
  "remote_cat_of created u =
     \<lparr>rc_id = cu_id u, rc_user_id = cu_user_id u, rc_name = cu_name u, rc_icon = cu_icon u,
      rc_deleted_at = cu_deleted_at u, rc_created_at = created, rc_updated_at = cu_updated_at u\<rparr>"

definition upsert_remote_txn :: "date \<Rightarrow> TransactionUpsert \<Rightarrow> RemoteTransaction list \<Rightarrow> RemoteTransaction list" where
  "upsert_remote_txn server_now u rows =
     (if \<exists>row \<in> set rows. rt_id row = tu_id u
      then map (\<lambda>row. if rt_id row = tu_id u then remote_txn_of (rt_created_at row) u else row) rows
      else rows @ [remote_txn_of server_now u])"

definition upsert_remote_cat :: "date \<Rightarrow> CategoryUpsert \<Rightarrow> RemoteCategory list \<Rightarrow> RemoteCategory list" where
  "upsert_remote_cat server_now u rows =
     (if \<exists>row \<in> set rows. rc_id row = cu_id u
      then map (\<lambda>row. if rc_id row = cu_id u then remote_cat_of (rc_created_at row) u else row) rows
      else rows @ [remote_cat_of server_now u])"

text \<open>The answer of an upsert is its \<open>error\<close>, \<open>null\<close> on success.\<close>

definition run_upsert_transactions ::
    "date \<Rightarrow> TransactionUpsert list \<Rightarrow> supabase \<Rightarrow> (thrown + string option) \<times> supabase" where
  "run_upsert_transactions server_now us sb =
     (case next_outcome sb of
        (Succeeds, sb') \<Rightarrow>
          (Inr None, sb'\<lparr>remote_transactions :=
             foldl (\<lambda>rows u. upsert_remote_txn server_now u rows) (remote_transactions sb') us\<rparr>)
      | (RespondsError m, sb') \<Rightarrow> (Inr (Some m), sb')
      | (ThrowsError m, sb') \<Rightarrow> (Inl (Error m), sb')
      | (ThrowsOther, sb') \<Rightarrow> (Inl NonError, sb'))"

definition run_upsert_categories ::
    "date \<Rightarrow> CategoryUpsert list \<Rightarrow> supabase \<Rightarrow> (thrown + string option) \<times> supabase" where
  "run_upsert_categories server_now us sb =
     (case next_outcome sb of
        (Succeeds, sb') \<Rightarrow>
          (Inr None, sb'\<lparr>remote_categories :=
             foldl (\<lambda>rows u. upsert_remote_cat server_now u rows) (remote_categories sb') us\<rparr>)
      | (RespondsError m, sb') \<Rightarrow> (Inr (Some m), sb')
      | (ThrowsError m, sb') \<Rightarrow> (Inl (Error m), sb')
      | (ThrowsOther, sb') \<Rightarrow> (Inl NonError, sb'))"

section \<open>Sync engine (services/supabaseSync.ts)\<close>

text \<open>
  The sync functions act on the local store and the remote service and read the clock.
  \<open>phases_run\<close> is a record of the phases entered, in order; the program does not read it.
\<close>

datatype phase = PullCategories | PullTransactions | PushCategories | PushTransactions

record world =
  store :: realm
  backend :: supabase
  clock :: date
  phases_run :: "phase list"

record SyncResult =
  success :: bool
  error :: "string option"

definition sync_ok :: SyncResult where
  "sync_ok = \<lparr>success = True, error = None\<rparr>"

definition sync_failed :: "string \<Rightarrow> SyncResult" where
  "sync_failed msg = \<lparr>success = False, error = Some msg\<rparr>"

text \<open>
  The \<open>catch\<close> block shared by the four phases:
  \<open>error instanceof Error ? error.message : fallback\<close>.
\<close>

definition catch_sync :: "string \<Rightarrow> (thrown + SyncResult) \<times> world \<Rightarrow> (thrown + SyncResult) \<times> world" where
  "catch_sync fallback x =
     (case fst x of
        Inl (Error m) \<Rightarrow> (Inr (sync_failed m), snd x)
      | Inl NonError \<Rightarrow> (Inr (sync_failed fallback), snd x)
      | Inr res \<Rightarrow> (Inr res, snd x))"

text \<open>The query of \<open>pullTransactions(since?)\<close>; a \<open>Date\<close> is truthy, so a given \<open>since\<close> always filters.\<close>

definition pullTransactionsQuery :: "string \<Rightarrow> date option \<Rightarrow> select_query" where
  "pullTransactionsQuery uid since =
     (let query = add_filter (Eq_user_id uid) (from_select_all ''transactions'')
      in case since of None \<Rightarrow> query | Some t \<Rightarrow> add_filter (Gt_updated_at t) query)"

definition pulled_transaction_draft :: "RemoteTransaction \<Rightarrow> TransactionDraft" where
  "pulled_transaction_draft txn =
     \<lparr>td_id = Some (rt_id txn), td_type = rt_type txn, td_amountCents = rt_amount_cents txn,
      td_categoryId = rt_category_id txn, td_timestamp = Some (rt_timestamp txn),
      td_syncStatus = Some Synced, td_deleted = Some (rt_deleted_at txn \<noteq> None)\<rparr>"

text \<open>\<open>data?.forEach(txn => upsertTransaction(...))\<close>; the drafts carry an id, so none is generated.\<close>

definition merge_transactions :: "date \<Rightarrow> RemoteTransaction list \<Rightarrow> realm \<Rightarrow> realm" where
  "merge_transactions now rows r =
     foldl (\<lambda>r txn. snd (upsertTransaction [] now (pulled_transaction_draft txn) r)) r rows"

definition pullTransactions_try :: "date option \<Rightarrow> world \<Rightarrow> (thrown + SyncResult) \<times> world" where
  "pullTransactions_try since w =
     (case auth_getUser (backend w) of
        (Inl e, sb) \<Rightarrow> (Inl e, w\<lparr>backend := sb\<rparr>)
      | (Inr None, sb) \<Rightarrow> (Inr (sync_failed ''Not authenticated''), w\<lparr>backend := sb\<rparr>)
      | (Inr (Some uid), sb) \<Rightarrow>
          (case run_select_transactions (pullTransactionsQuery uid since) sb of
             (Inl e, sb') \<Rightarrow> (Inl e, w\<lparr>backend := sb'\<rparr>)
           | (Inr resp, sb') \<Rightarrow>
               (case resp_error resp of
                  Some msg \<Rightarrow> (Inr (sync_failed msg), w\<lparr>backend := sb'\<rparr>)
                | None \<Rightarrow>
                    (Inr sync_ok,
                     w\<lparr>backend := sb',
                       store := merge_transactions (clock w) (nullish (resp_data resp) []) (store w)\<rparr>))))"

definition pullTransactions :: "date option \<Rightarrow> world \<Rightarrow> (thrown + SyncResult) \<times> world" where
  "pullTransactions since w =
     catch_sync ''Failed to sync transactions''
       (pullTransactions_try since (w\<lparr>phases_run := phases_run w @ [PullTransactions]\<rparr>))"

definition pullCategoriesQuery :: "string \<Rightarrow> select_query" where
  "pullCategoriesQuery uid =
     add_filter Is_deleted_at_null (add_filter (Eq_user_id uid) (from_select_all ''categories''))"

definition pulled_category_draft :: "RemoteCategory \<Rightarrow> CategoryDraft" where
  "pulled_category_draft cat =
     \<lparr>cd_id = Some (rc_id cat), cd_name = rc_name cat, cd_icon = rc_icon cat,
      cd_userDefined = Some True, cd_createdAt = Some (rc_created_at cat),
      cd_updatedAt = Some (rc_updated_at cat)\<rparr>"

definition merge_categories :: "date \<Rightarrow> RemoteCategory list \<Rightarrow> realm \<Rightarrow> realm" where
  "merge_categories now rows r =
     foldl (\<lambda>r cat. snd (upsertCategory [] now (pulled_category_draft cat) r)) r rows"

definition pullCategories_try :: "world \<Rightarrow> (thrown + SyncResult) \<times> world" where
  "pullCategories_try w =
     (case auth_getUser (backend w) of
        (Inl e, sb) \<Rightarrow> (Inl e, w\<lparr>backend := sb\<rparr>)
      | (Inr None, sb) \<Rightarrow> (Inr (sync_failed ''Not authenticated''), w\<lparr>backend := sb\<rparr>)
      | (Inr (Some uid), sb) \<Rightarrow>
          (case run_select_categories (pullCategoriesQuery uid) sb of
             (Inl e, sb') \<Rightarrow> (Inl e, w\<lparr>backend := sb'\<rparr>)
           | (Inr resp, sb') \<Rightarrow>
               (case resp_error resp of
                  Some msg \<Rightarrow> (Inr (sync_failed msg), w\<lparr>backend := sb'\<rparr>)
                | None \<Rightarrow>
                    (Inr sync_ok,
                     w\<lparr>backend := sb',
                       store := merge_categories (clock w) (nullish (resp_data resp) []) (store w)\<rparr>))))"

definition pullCategories :: "world \<Rightarrow> (thrown + SyncResult) \<times> world" where
  "pullCategories w =
     catch_sync ''Failed to sync categories''
       (pullCategories_try (w\<lparr>phases_run := phases_run w @ [PullCategories]\<rparr>))"

definition pushed_transaction :: "string \<Rightarrow> date \<Rightarrow> Transaction \<Rightarrow> TransactionUpsert" where
  "pushed_transaction uid now txn =
     \<lparr>tu_id = txn_id txn, tu_user_id = uid, tu_type = txn_type txn,
      tu_amount_cents = amountCents txn, tu_category_id = categoryId txn,
      tu_timestamp = timestamp txn,
      tu_deleted_at = (if deleted txn then Some now else None),
      tu_updated_at = txn_updatedAt txn\<rparr>"

definition pushTransactions_try :: "world \<Rightarrow> (thrown + SyncResult) \<times> world" where
  "pushTransactions_try w =
     (case auth_getUser (backend w) of
        (Inl e, sb) \<Rightarrow> (Inl e, w\<lparr>backend := sb\<rparr>)
      | (Inr None, sb) \<Rightarrow> (Inr (sync_failed ''Not authenticated''), w\<lparr>backend := sb\<rparr>)
      | (Inr (Some uid), sb) \<Rightarrow>
          (let localTransactions = map (pushed_transaction uid (clock w)) (orderedTransactions (store w))
           in case run_upsert_transactions (clock w) localTransactions sb of
                (Inl e, sb') \<Rightarrow> (Inl e, w\<lparr>backend := sb'\<rparr>)
              | (Inr (Some msg), sb') \<Rightarrow> (Inr (sync_failed msg), w\<lparr>backend := sb'\<rparr>)
              | (Inr None, sb') \<Rightarrow> (Inr sync_ok, w\<lparr>backend := sb'\<rparr>)))"

definition pushTransactions :: "world \<Rightarrow> (thrown + SyncResult) \<times> world" where
  "pushTransactions w =
     catch_sync ''Failed to sync transactions''
       (pushTransactions_try (w\<lparr>phases_run := phases_run w @ [PushTransactions]\<rparr>))"

text \<open>The repository's view of the categories, by \<open>name\<close> ascending.\<close>

definition orderedCategories :: "realm \<Rightarrow> Category list" where
  "orderedCategories r = sort_key cat_name (categories r)"

definition pushed_category :: "string \<Rightarrow> Category \<Rightarrow> CategoryUpsert" where
  "pushed_category uid cat =
     \<lparr>cu_id = cat_id cat, cu_user_id = uid, cu_name = cat_name cat, cu_icon = cat_icon cat,
      cu_deleted_at = None, cu_updated_at = cat_updatedAt cat\<rparr>"

definition pushCategories_try :: "world \<Rightarrow> (thrown + SyncResult) \<times> world" where
  "pushCategories_try w =
     (case auth_getUser (backend w) of
        (Inl e, sb) \<Rightarrow> (Inl e, w\<lparr>backend := sb\<rparr>)
      | (Inr None, sb) \<Rightarrow> (Inr (sync_failed ''Not authenticated''), w\<lparr>backend := sb\<rparr>)
      | (Inr (Some uid), sb) \<Rightarrow>
          (let localCategories = map (pushed_category uid) (filter userDefined (orderedCategories (store w)))
           in if length localCategories = 0 then (Inr sync_ok, w\<lparr>backend := sb\<rparr>)
              else case run_upsert_categories (clock w) localCategories sb of
                (Inl e, sb') \<Rightarrow> (Inl e, w\<lparr>backend := sb'\<rparr>)
              | (Inr (Some msg), sb') \<Rightarrow> (Inr (sync_failed msg), w\<lparr>backend := sb'\<rparr>)
              | (Inr None, sb') \<Rightarrow> (Inr sync_ok, w\<lparr>backend := sb'\<rparr>)))"

definition pushCategories :: "world \<Rightarrow> (thrown + SyncResult) \<times> world" where
  "pushCategories w =
     catch_sync ''Failed to sync categories''
       (pushCategories_try (w\<lparr>phases_run := phases_run w @ [PushCategories]\<rparr>))"

text \<open>
  \<open>syncAll(isInitialSync = false, lastSyncAt?)\<close>. An awaited phase that threw would throw
  out of \<open>syncAll\<close>, which has no handler of its own.
\<close>

definition sync_since :: "bool \<Rightarrow> date option \<Rightarrow> date option" where
  "sync_since isInitialSync lastSyncAt =
     (if \<not> isInitialSync \<and> lastSyncAt \<noteq> None then lastSyncAt else None)"

definition syncAll :: "bool \<Rightarrow> date option \<Rightarrow> world \<Rightarrow> (thrown + SyncResult) \<times> world" where
  "syncAll isInitialSync lastSyncAt w =
     (let since = sync_since isInitialSync lastSyncAt
      in case pullCategories w of
           (Inl e, w1) \<Rightarrow> (Inl e, w1)
         | (Inr categoriesResult, w1) \<Rightarrow>
             if \<not> success categoriesResult then (Inr categoriesResult, w1)
             else (case pullTransactions since w1 of
                     (Inl e, w2) \<Rightarrow> (Inl e, w2)
                   | (Inr transactionsResult, w2) \<Rightarrow>
                       if \<not> success transactionsResult then (Inr transactionsResult, w2)
                       else (case pushCategories w2 of
                               (Inl e, w3) \<Rightarrow> (Inl e, w3)
                             | (Inr pushCategoriesResult, w3) \<Rightarrow>
                                 if \<not> success pushCategoriesResult then (Inr pushCategoriesResult, w3)
                                 else pushTransactions w3)))"

text \<open>The realtime handlers of \<open>setupRealtimeSync\<close>, for a change event with the row \<open>payload.new\<close>.\<close>

datatype eventType = INSERT | UPDATE | DELETE

definition onTransactionChange :: "date \<Rightarrow> eventType \<Rightarrow> RemoteTransaction \<Rightarrow> realm \<Rightarrow> realm" where
  "onTransactionChange now ev txn r =
     (if ev = INSERT \<or> ev = UPDATE
      then snd (upsertTransaction [] now (pulled_transaction_draft txn) r)
      else r)"

definition onCategoryChange :: "date \<Rightarrow> eventType \<Rightarrow> RemoteCategory \<Rightarrow> realm \<Rightarrow> realm" where
  "onCategoryChange now ev cat r =
     (if ev = INSERT \<or> ev = UPDATE
      then snd (upsertCategory [] now (pulled_category_draft cat) r)
      else r)"

section \<open>Sample remote data\<close>

text \<open>
  A remote store with one category and four transactions, three of them of the signed-in
  user \<open>u1\<close>, and the world made of it and the sample store.
\<close>

definition remote_cat_sample :: RemoteCategory where
  "remote_cat_sample = \<lparr>rc_id = ''c'', rc_user_id = ''u1'', rc_name = ''Cafe'', rc_icon = ''cafe'',
     rc_deleted_at = None, rc_created_at = 9, rc_updated_at = 12\<rparr>"

definition remote_txn_row :: "string \<Rightarrow> string \<Rightarrow> date option \<Rightarrow> date \<Rightarrow> RemoteTransaction" where
  "remote_txn_row k uid del upd = \<lparr>rt_id = k, rt_user_id = uid, rt_type = Income, rt_amount_cents = 500,
     rt_category_id = ''c'', rt_timestamp = 3, rt_deleted_at = del, rt_created_at = 3, rt_updated_at = upd\<rparr>"

definition sample_backend :: supabase where
  "sample_backend = \<lparr>session_user = Some ''u1'',
     remote_transactions = [remote_txn_row ''r1'' ''u1'' None 10, remote_txn_row ''r2'' ''u1'' (Some 30) 30,
                            remote_txn_row ''r3'' ''u2'' None 40, remote_txn_row ''r4'' ''u1'' None 20],
     remote_categories = [remote_cat_sample], outcomes = [], queries_asked = []\<rparr>"

definition sample_world :: world where
  "sample_world = \<lparr>store = sample_realm, backend = sample_backend, clock = 100, phases_run = []\<rparr>"


definition pulled_category :: "realm \<Rightarrow> RemoteCategory \<Rightarrow> Category" where
  "pulled_category r row =
     \<lparr>cat_id = rc_id row, cat_name = rc_name row, cat_icon = rc_icon row, userDefined = True,
      createdAt = (case categoryForPrimaryKey r (rc_id row) of
                     None \<Rightarrow> rc_created_at row
                   | Some existing \<Rightarrow> createdAt existing),
      cat_updatedAt = rc_updated_at row\<rparr>"

text \<open>A world whose fourth remote call, the query of pull transactions, answers with an error.\<close>

definition failing_world :: world where
  "failing_world =
     sample_world\<lparr>backend := sample_backend\<lparr>outcomes := [Succeeds, Succeeds, Succeeds, RespondsError ''timeout'']\<rparr>\<rparr>"

definition pulled_cat_sample :: Category where
  "pulled_cat_sample =
     \<lparr>cat_id = ''c'', cat_name = ''Cafe'', cat_icon = ''cafe'', userDefined = True,
      createdAt = 5, cat_updatedAt = 12\<rparr>"

section \<open>Numbers and strings of the validation layer\<close>

text \<open>
  A JavaScript number is \<open>NaN\<close>, an infinity or a finite double; a finite double is
  modelled by the rational it denotes (the sign of zero is dropped). Arithmetic on doubles
  is exact arithmetic followed by rounding to the nearest double, ties to the even
  significand (IEEE 754 binary64: 53 significant bits, least exponent -1022, overflow to
  infinity from \<open>2^1024\<close>).
\<close>

datatype jsnum = NaN | PosInf | NegInf | Fin rat

text \<open>For \<open>n \<ge> 1\<close>, the exponent \<open>k\<close> with \<open>2^k \<le> n < 2^(k+1)\<close>.\<close>

function ilog2 :: "int \<Rightarrow> int" where
  "ilog2 n = (if n < 2 then 0 else 1 + ilog2 (n div 2))"
  by pat_completeness auto
termination
  by (relation "measure nat") auto

declare ilog2.simps [simp del]

definition pow2 :: "int \<Rightarrow> rat" where
  "pow2 k = (if 0 \<le> k then 2 ^ nat k else 1 / 2 ^ nat (- k))"

text \<open>For \<open>x > 0\<close>, the exponent \<open>e\<close> with \<open>2^e \<le> x < 2^(e+1)\<close>.\<close>

definition floor_log2 :: "rat \<Rightarrow> int" where
  "floor_log2 x = (if 1 \<le> x then ilog2 \<lfloor>x\<rfloor> else - (ilog2 (\<lceil>1 / x\<rceil> - 1) + 1))"

definition round_half_even :: "rat \<Rightarrow> int" where
  "round_half_even q =
     (let f = \<lfloor>q\<rfloor>; d = q - of_int f
      in if d < 1 / 2 then f else if 1 / 2 < d then f + 1 else if even f then f else f + 1)"

definition round_to_double :: "rat \<Rightarrow> jsnum" where
  "round_to_double x =
     (if x = 0 then Fin 0
      else (let a = \<bar>x\<bar>;
                e = max (floor_log2 a) (- 1022);
                ulp = pow2 (e - 52);
                y = of_int (round_half_even (a / ulp)) * ulp
            in if pow2 1024 \<le> y then (if x < 0 then NegInf else PosInf)
               else Fin (if x < 0 then - y else y)))"

text \<open>A decimal literal of the source, such as \<open>0.01\<close>, is the double nearest to it.\<close>

definition js_literal :: "rat \<Rightarrow> jsnum" where
  "js_literal q = round_to_double q"

text \<open>\<open>Math.abs\<close>, \<open>*\<close>, \<open>Math.round\<close>, \<open>Number.isFinite\<close> and \<open>>=\<close>.\<close>

fun js_abs :: "jsnum \<Rightarrow> jsnum" where
  "js_abs NaN = NaN"
| "js_abs PosInf = PosInf"
| "js_abs NegInf = PosInf"
| "js_abs (Fin x) = Fin \<bar>x\<bar>"

fun js_sign_negative :: "jsnum \<Rightarrow> bool" where
  "js_sign_negative NegInf = True"
| "js_sign_negative (Fin x) = (x < 0)"
| "js_sign_negative _ = False"

fun js_mul :: "jsnum \<Rightarrow> jsnum \<Rightarrow> jsnum" where
  "js_mul NaN _ = NaN"
| "js_mul _ NaN = NaN"
| "js_mul (Fin x) (Fin y) = round_to_double (x * y)"
| "js_mul a b =
     (if a = Fin 0 \<or> b = Fin 0 then NaN
      else if js_sign_negative a = js_sign_negative b then PosInf else NegInf)"

fun js_round :: "jsnum \<Rightarrow> jsnum" where
  "js_round (Fin x) = Fin (of_int \<lfloor>x + 1 / 2\<rfloor>)"
| "js_round n = n"

fun js_isFinite :: "jsnum \<Rightarrow> bool" where
  "js_isFinite (Fin x) = True"
| "js_isFinite _ = False"

fun js_ge :: "jsnum \<Rightarrow> jsnum \<Rightarrow> bool" where
  "js_ge NaN _ = False"
| "js_ge _ NaN = False"
| "js_ge PosInf _ = True"
| "js_ge _ NegInf = True"
| "js_ge NegInf _ = False"
| "js_ge _ PosInf = False"
| "js_ge (Fin x) (Fin y) = (y \<le> x)"

text \<open>
  \<open>value.replace(/[^0-9.,-]/g, '')\<close> keeps the digits, periods, commas and minus signs;
  \<open>.replace(',', '.')\<close> with a string pattern replaces the first comma only.
\<close>

definition is_digit :: "char \<Rightarrow> bool" where
  "is_digit c \<longleftrightarrow> c \<in> set ''0123456789''"

definition strip_non_amount_chars :: "string \<Rightarrow> string" where
  "strip_non_amount_chars s = filter (\<lambda>c. is_digit c \<or> c = CHR ''.'' \<or> c = CHR '','' \<or> c = CHR ''-'') s"

fun replace_first_comma :: "string \<Rightarrow> string" where
  "replace_first_comma [] = []"
| "replace_first_comma (c # cs) = (if c = CHR '','' then CHR ''.'' # cs else c # replace_first_comma cs)"

definition normalize_amount :: "string \<Rightarrow> string" where
  "normalize_amount s = replace_first_comma (strip_non_amount_chars s)"

text \<open>
  \<open>Number.parseFloat\<close> reads the longest prefix that is a decimal literal: an optional
  sign, digits, and an optional period with digits, with at least one digit. Its
  argument here has passed the first \<open>replace\<close>, so white space, \<open>+\<close>, exponents and
  \<open>Infinity\<close> cannot occur in it and are left out of the model.
\<close>

definition digit_value :: "char \<Rightarrow> int" where
  "digit_value c = of_char c - 48"

definition digits_value :: "string \<Rightarrow> int" where
  "digits_value ds = foldl (\<lambda>a c. 10 * a + digit_value c) 0 ds"

definition parseFloat :: "string \<Rightarrow> jsnum" where
  "parseFloat s =
     (let neg = (case s of [] \<Rightarrow> False | c # cs \<Rightarrow> c = CHR ''-'');
          r = (if neg then tl s else s);
          ip = takeWhile is_digit r;
          r1 = dropWhile is_digit r;
          fp = (case r1 of [] \<Rightarrow> [] | c # cs \<Rightarrow> if c = CHR ''.'' then takeWhile is_digit cs else [])
      in if ip = [] \<and> fp = [] then NaN
         else (let mv = of_int (digits_value ip) + of_int (digits_value fp) / 10 ^ length fp
               in round_to_double (if neg then - mv else mv)))"

section \<open>Validation layer (lib/validation.ts)\<close>

text \<open>
  The input of \<open>validateTransactionDraft\<close> is \<open>unknown\<close>: each property is some JavaScript
  value. A \<open>Date\<close> may be invalid (\<open>JDate None\<close>).
\<close>

datatype js_value = JUndefined | JNumber jsnum | JString string | JDate "date option" | JOther

text \<open>A zod issue, with the message the schema gives for it, if any.\<close>

datatype zissue =
    Invalid_type "string option"
  | Invalid_union
  | Invalid_string_uuid
  | Too_small "string option"
  | Custom string

text \<open>\<open>z.union([z.number(), z.string().min(1)])\<close>; \<open>z.number()\<close> does not accept \<open>NaN\<close>.\<close>

definition amount_union :: "js_value \<Rightarrow> zissue list + js_value" where
  "amount_union v =
     (case v of
        JNumber n \<Rightarrow> if n = NaN then Inl [Invalid_union] else Inr v
      | JString s \<Rightarrow> if 1 \<le> length s then Inr v else Inl [Invalid_union]
      | _ \<Rightarrow> Inl [Invalid_union])"

definition amount_transform :: "js_value \<Rightarrow> jsnum" where
  "amount_transform v =
     (case v of
        JNumber n \<Rightarrow> n
      | JString s \<Rightarrow> parseFloat (normalize_amount s)
      | _ \<Rightarrow> NaN)"

text \<open>
  The piped schema: \<open>z.number\<close>, the two refinements (both are run, a failed one does not
  stop the next), and the transform, run when no issue was raised.
\<close>

definition amount_pipe :: "jsnum \<Rightarrow> zissue list + jsnum" where
  "amount_pipe n =
     (if n = NaN then Inl [Invalid_type (Some ''Amount must be a number'')]
      else (let issues =
                  (if js_isFinite n then [] else [Custom ''Amount must be finite''])
                  @ (if js_ge (js_abs n) (js_literal (1 / 100)) then []
                     else [Custom ''Amount must be at least 0.01''])
            in if issues = [] then Inr (js_round (js_mul (js_abs n) (Fin 100))) else Inl issues))"

definition amountInputSchema :: "js_value \<Rightarrow> zissue list + jsnum" where
  "amountInputSchema v =
     (case amount_union v of Inl issues \<Rightarrow> Inl issues | Inr u \<Rightarrow> amount_pipe (amount_transform u))"

record draft_input =
  in_id :: js_value
  in_type :: js_value
  in_amount :: js_value
  in_categoryId :: js_value
  in_timestamp :: js_value

record ValidatedTransactionDraft =
  v_id :: "string option"
  v_type :: TransactionType
  v_amountCents :: jsnum
  v_categoryId :: string
  v_timestamp :: date

text \<open>
  The other properties of \<open>transactionDraftSchema\<close>. The UUID pattern of zod and the date
  parser of \<open>new Date(string)\<close> are parameters (\<open>is_uuid\<close>, \<open>parse_date\<close>, \<open>None\<close> for an
  invalid date).
\<close>

definition id_schema :: "(string \<Rightarrow> bool) \<Rightarrow> js_value \<Rightarrow> zissue list + string option" where
  "id_schema is_uuid v =
     (case v of
        JUndefined \<Rightarrow> Inr None
      | JString s \<Rightarrow> if is_uuid s then Inr (Some s) else Inl [Invalid_string_uuid]
      | _ \<Rightarrow> Inl [Invalid_type None])"

definition transactionTypeSchema :: "js_value \<Rightarrow> zissue list + TransactionType" where
  "transactionTypeSchema v =
     (if v = JString ''expense'' then Inr Expense
      else if v = JString ''income'' then Inr Income
      else Inl [Custom ''Invalid transaction type''])"

definition categoryId_schema :: "js_value \<Rightarrow> zissue list + string" where
  "categoryId_schema v =
     (case v of
        JString s \<Rightarrow> if 1 \<le> length s then Inr s else Inl [Too_small (Some ''Category is required'')]
      | _ \<Rightarrow> Inl [Invalid_type None])"

text \<open>
  \<open>timestampSchema.default(() => new Date())\<close>. The transform throws a plain \<open>Error\<close> for a
  string that is no date: the outer \<open>Inl\<close> is that throw, which ends the whole parse.
\<close>

definition timestampSchema :: "(string \<Rightarrow> date option) \<Rightarrow> date \<Rightarrow> js_value \<Rightarrow> string + (zissue list + date)" where
  "timestampSchema parse_date now v =
     (case v of
        JUndefined \<Rightarrow> Inr (Inr now)
      | JDate d \<Rightarrow> (case d of None \<Rightarrow> Inr (Inl [Invalid_union]) | Some t \<Rightarrow> Inr (Inr t))
      | JString s \<Rightarrow>
          if 1 \<le> length s
          then (case parse_date s of None \<Rightarrow> Inl ''Invalid timestamp'' | Some t \<Rightarrow> Inr (Inr t))
          else Inr (Inl [Invalid_union])
      | _ \<Rightarrow> Inr (Inl [Invalid_union]))"

datatype validation_failure = ZodError "(string \<times> zissue) list" | ThrownError string

definition issues_at :: "string \<Rightarrow> zissue list + 'a \<Rightarrow> (string \<times> zissue) list" where
  "issues_at path res = (case res of Inl issues \<Rightarrow> map (Pair path) issues | Inr v \<Rightarrow> [])"

text \<open>
  \<open>validateTransactionDraft(input)\<close>: \<open>transactionDraftSchema.parse\<close> parses every property,
  throws a \<open>ZodError\<close> with the issues of all of them if there are any, and otherwise
  returns the parsed values.
\<close>

definition validateTransactionDraft ::
    "(string \<Rightarrow> bool) \<Rightarrow> (string \<Rightarrow> date option) \<Rightarrow> date \<Rightarrow> draft_input
       \<Rightarrow> validation_failure + ValidatedTransactionDraft" where
  "validateTransactionDraft is_uuid parse_date now input =
     (let pid = id_schema is_uuid (in_id input);
          ptype = transactionTypeSchema (in_type input);
          pamount = amountInputSchema (in_amount input);
          pcategory = categoryId_schema (in_categoryId input)
      in case timestampSchema parse_date now (in_timestamp input) of
           Inl msg \<Rightarrow> Inl (ThrownError msg)
         | Inr ptimestamp \<Rightarrow>
             (case (pid, ptype, pamount, pcategory, ptimestamp) of
                (Inr i, Inr t, Inr a, Inr c, Inr ts) \<Rightarrow>
                  Inr \<lparr>v_id = i, v_type = t, v_amountCents = a, v_categoryId = c, v_timestamp = ts\<rparr>
              | _ \<Rightarrow>
                  Inl (ZodError (issues_at ''id'' pid @ issues_at ''type'' ptype
                                 @ issues_at ''amount'' pamount @ issues_at ''categoryId'' pcategory
                                 @ issues_at ''timestamp'' ptimestamp))))"


text \<open>A draft whose properties other than the amount are valid.\<close>

definition sample_draft :: "js_value \<Rightarrow> draft_input" where
  "sample_draft a =
     \<lparr>in_id = JUndefined, in_type = JString ''expense'', in_amount = a,
      in_categoryId = JString ''c'', in_timestamp = JUndefined\<rparr>"

definition no_uuid :: "string \<Rightarrow> bool" where
  "no_uuid s = False"

definition no_date :: "string \<Rightarrow> date option" where
  "no_date s = None"

section \<open>Repository: facts\<close>

lemma find_cat_None: "find (\<lambda>c. cat_id c = k) cs = None \<longleftrightarrow> (\<forall>c \<in> set cs. cat_id c \<noteq> k)"
  by (induction cs) auto


lemma categoryForPrimaryKey_Some_iff:
  "(\<exists>c. categoryForPrimaryKey r k = Some c) \<longleftrightarrow> (\<exists>c \<in> set (categories r). cat_id c = k)"
  using find_cat_None [of k "categories r"]
  by (cases "categoryForPrimaryKey r k") (auto simp: categoryForPrimaryKey_def)

lemma deleteCategory_present:
  assumes "\<exists>c \<in> set (categories r). cat_id c = C" "R \<noteq> []"
  shows "deleteCategory now C (Some R) r =
     (True, \<lparr>transactions = map (reassign now C R) (transactions r),
             categories = filter (\<lambda>c. cat_id c \<noteq> C) (categories r)\<rparr>)"
proof -
  obtain c where "categoryForPrimaryKey r C = Some c"
    using assms(1) categoryForPrimaryKey_Some_iff by blast
  then show ?thesis using assms(2)
    by (simp add: deleteCategory_def truthy_string_def)
qed

lemma deleteCategory_no_replacement:
  assumes "\<exists>c \<in> set (categories r). cat_id c = C"
  shows "deleteCategory now C None r =
     (True, r\<lparr>categories := filter (\<lambda>c. cat_id c \<noteq> C) (categories r)\<rparr>)"
proof -
  obtain c where "categoryForPrimaryKey r C = Some c"
    using assms(1) categoryForPrimaryKey_Some_iff by blast
  then show ?thesis
    by (simp add: deleteCategory_def)
qed

lemma deleteCategory_absent:
  assumes "\<forall>c \<in> set (categories r). cat_id c \<noteq> C"
  shows "deleteCategory now C rep r = (False, r)"
proof -
  have "categoryForPrimaryKey r C = None"
    using assms by (simp add: categoryForPrimaryKey_def find_cat_None)
  then show ?thesis by (simp add: deleteCategory_def)
qed

lemma count_reassign:
  "R \<noteq> C \<Longrightarrow> length (filter (\<lambda>t. categoryId t = R) (map (reassign now C R) ts))
     = length (filter (\<lambda>t. categoryId t = R) ts) + length (filter (\<lambda>t. categoryId t = C) ts)"
  by (induction ts) (auto simp: reassign_def)

section \<open>Deleting a category\<close>

text \<open>
  Claim C6. For a category \<open>C\<close> present in the store and a replacement id \<open>R\<close> different
  from \<open>C\<close> (a category id is a non-empty string; JavaScript takes the empty string for a
  missing argument), \<open>deleteCategory(C, R)\<close> returns true, and its single write block
  leaves a store in which every transaction that referenced \<open>C\<close> references \<open>R\<close>, with
  \<open>updatedAt\<close> set to the current time and \<open>syncStatus\<close> reset to local, every other
  transaction is untouched, no transaction references \<open>C\<close>, the number of transactions
  referencing \<open>R\<close> has grown by the number that referenced \<open>C\<close>, and the record of \<open>C\<close> is
  gone. On an id that is not present, \<open>deleteCategory\<close> returns false and the store is
  unchanged. The function is one transition of the store: no intermediate state exists.
\<close>

theorem deleteCategory_reassigns_atomically:
  assumes present: "\<exists>c \<in> set (categories r). cat_id c = C"
      and distinct: "R \<noteq> C" and nonempty: "R \<noteq> []"
      and run: "deleteCategory now C (Some R) r = (ok, r')"
  shows "ok
       \<and> length (transactions r') = length (transactions r)
       \<and> (\<forall>i < length (transactions r).
             transactions r' ! i =
               (if categoryId (transactions r ! i) = C
                then (transactions r ! i)\<lparr>categoryId := R, txn_updatedAt := now, syncStatus := Local\<rparr>
                else transactions r ! i))
       \<and> (\<forall>t \<in> set (transactions r'). categoryId t \<noteq> C)
       \<and> length (filter (\<lambda>t. categoryId t = R) (transactions r'))
           = length (filter (\<lambda>t. categoryId t = R) (transactions r))
             + length (filter (\<lambda>t. categoryId t = C) (transactions r))
       \<and> categoryForPrimaryKey r' C = None
       \<and> categories r' = filter (\<lambda>c. cat_id c \<noteq> C) (categories r)
       \<and> ((\<forall>c \<in> set (categories r0). cat_id c \<noteq> C0) \<longrightarrow>
             deleteCategory now C0 rep r0 = (False, r0))"
proof -
  have eq: "ok = True"
      "r' = \<lparr>transactions = map (reassign now C R) (transactions r),
             categories = filter (\<lambda>c. cat_id c \<noteq> C) (categories r)\<rparr>"
    using deleteCategory_present [OF present nonempty, of now] run by simp_all
  have t: "transactions r' = map (reassign now C R) (transactions r)"
    and c: "categories r' = filter (\<lambda>c. cat_id c \<noteq> C) (categories r)"
    by (simp_all add: eq)
  have 1: "\<forall>i < length (transactions r).
             transactions r' ! i =
               (if categoryId (transactions r ! i) = C
                then (transactions r ! i)\<lparr>categoryId := R, txn_updatedAt := now, syncStatus := Local\<rparr>
                else transactions r ! i)"
    by (simp add: t reassign_def)
  have 2: "\<forall>t \<in> set (transactions r'). categoryId t \<noteq> C"
    using distinct by (auto simp: t reassign_def)
  have 3: "categoryForPrimaryKey r' C = None"
    by (simp add: categoryForPrimaryKey_def find_cat_None c)
  show ?thesis
    using eq(1) 1 2 3 c count_reassign [OF distinct, of now "transactions r"]
      deleteCategory_absent [of r0 C0 now rep]
    by (simp add: t)
qed

theorem deleteCategory_reassigns_atomically_witness:
  "(\<exists>c \<in> set (categories sample_realm). cat_id c = ''c'') \<and> ''d'' \<noteq> ''c'' \<and> ''d'' \<noteq> []
   \<and> deleteCategory 50 ''c'' (Some ''d'') sample_realm
       = (True, \<lparr>transactions = [sample_txn\<lparr>categoryId := ''d'', txn_updatedAt := 50, syncStatus := Local\<rparr>],
                 categories = []\<rparr>)
   \<and> ''zz'' \<notin> cat_id ` set (categories sample_realm)
   \<and> deleteCategory 50 ''zz'' (Some ''d'') sample_realm = (False, sample_realm)"
proof -
  have p: "\<exists>c \<in> set (categories sample_realm). cat_id c = ''c''"
    by (simp add: sample_realm_def sample_cat_def)
  have a: "\<forall>c \<in> set (categories sample_realm). cat_id c \<noteq> ''zz''"
    by (simp add: sample_realm_def sample_cat_def)
  have run: "deleteCategory 50 ''c'' (Some ''d'') sample_realm
       = (True, \<lparr>transactions = [sample_txn\<lparr>categoryId := ''d'', txn_updatedAt := 50, syncStatus := Local\<rparr>],
                 categories = []\<rparr>)"
    by (simp add: deleteCategory_def categoryForPrimaryKey_def truthy_string_def reassign_def
        sample_realm_def sample_cat_def sample_txn_def)
  from deleteCategory_reassigns_atomically [OF p _ _ run, of sample_realm "''zz''" "Some ''d''"] a
  have "deleteCategory 50 ''zz'' (Some ''d'') sample_realm = (False, sample_realm)"
    by simp
  moreover have "''zz'' \<notin> cat_id ` set (categories sample_realm)"
    by (simp add: sample_realm_def sample_cat_def)
  ultimately show ?thesis using p run by simp
qed

text \<open>
  Claim C5 says that the category service blocks \<open>removeCategory(C)\<close> without a replacement
  when transactions reference \<open>C\<close>. It does not: on the sample store, where one active
  transaction references the category \<open>c\<close>, the call returns true, removes the category and
  leaves the transaction pointing at the id \<open>c\<close>, which no category has any more.
\<close>

theorem removeCategory_orphans_counterexample:
  "getTransactionCount sample_realm ''c'' = 1
   \<and> removeCategory 50 ''c'' None sample_realm = (True, \<lparr>transactions = [sample_txn], categories = []\<rparr>)
   \<and> categoryId sample_txn = ''c''
   \<and> categoryForPrimaryKey \<lparr>transactions = [sample_txn], categories = []\<rparr> ''c'' = None"
  by (simp add: getTransactionCount_def removeCategory_def deleteCategory_def
      categoryForPrimaryKey_def sample_realm_def sample_cat_def sample_txn_def)

text \<open>
  Claim C5, as the code has it. \<open>removeCategory\<close> of the category service passes its
  arguments to the repository's \<open>deleteCategory\<close> without looking at the reference count:
  for a present category and no replacement it returns true, removes the category record
  and leaves every transaction as it was. The requirement of a replacement is enforced by
  the category screen alone: \<open>handleConfirmDelete\<close>, when the count shown is nonzero and no
  replacement is chosen, sets the error "Select a replacement category" and does not call
  the service, so the store is unchanged.
\<close>

theorem removeCategory_delegates_unguarded:
  "removeCategory now C rep r = deleteCategory now C rep r
   \<and> ((\<exists>c \<in> set (categories r). cat_id c = C) \<longrightarrow>
        removeCategory now C None r
          = (True, r\<lparr>categories := filter (\<lambda>c. cat_id c \<noteq> C) (categories r)\<rparr>))
   \<and> (ds_count ds > 0 \<and> \<not> truthy_string replacementId \<longrightarrow>
        handleConfirmDelete now (Some ds) replacementId r
          = (Some ''Select a replacement category'', r))"
  using deleteCategory_no_replacement [of r C now]
  by (simp add: removeCategory_def handleConfirmDelete_def)

theorem removeCategory_delegates_unguarded_witness:
  "(\<exists>c \<in> set (categories sample_realm). cat_id c = ''c'')
   \<and> removeCategory 50 ''c'' None sample_realm = (True, sample_realm\<lparr>categories := []\<rparr>)
   \<and> ds_count \<lparr>ds_id = ''c'', ds_name = ''Coffee'', ds_count = 1\<rparr> > 0
   \<and> \<not> truthy_string None
   \<and> handleConfirmDelete 50 (Some \<lparr>ds_id = ''c'', ds_name = ''Coffee'', ds_count = 1\<rparr>) None sample_realm
        = (Some ''Select a replacement category'', sample_realm)"
proof -
  have p: "\<exists>c \<in> set (categories sample_realm). cat_id c = ''c''"
    by (simp add: sample_realm_def sample_cat_def)
  have f: "filter (\<lambda>c. cat_id c \<noteq> ''c'') (categories sample_realm) = []"
    by (simp add: sample_realm_def sample_cat_def)
  have q: "ds_count \<lparr>ds_id = ''c'', ds_name = ''Coffee'', ds_count = 1\<rparr> > 0 \<and> \<not> truthy_string None"
    by (simp add: truthy_string_def)
  note inst = removeCategory_delegates_unguarded
    [of 50 "''c''" None sample_realm "\<lparr>ds_id = ''c'', ds_name = ''Coffee'', ds_count = 1\<rparr>" None]
  have a: "removeCategory 50 ''c'' None sample_realm = (True, sample_realm\<lparr>categories := []\<rparr>)"
    using inst p f by metis
  have b: "handleConfirmDelete 50 (Some \<lparr>ds_id = ''c'', ds_name = ''Coffee'', ds_count = 1\<rparr>) None sample_realm
        = (Some ''Select a replacement category'', sample_realm)"
    using inst q by metis
  show ?thesis using p q a b by blast
qed

section \<open>Seeding the default categories\<close>

lemma seed_category_Some:
  "\<exists>r'. seed_category now d r = Some r' \<and> transactions r' = transactions r
      \<and> (categories r' = categories r \<or> categories r' = categories r @ [default_category now d])
      \<and> (\<exists>c \<in> set (categories r'). cat_id c = fst d)"
proof (cases "categoryForPrimaryKey r (fst d)")
  case None
  then have "\<forall>c \<in> set (categories r). cat_id c \<noteq> fst d"
    by (simp add: categoryForPrimaryKey_def find_cat_None)
  with None show ?thesis
    by (auto simp: seed_category_def realm_create_cat_def default_category_def)
next
  case (Some c)
  then have "\<exists>c \<in> set (categories r). cat_id c = fst d"
    using categoryForPrimaryKey_Some_iff by blast
  with Some show ?thesis by (simp add: seed_category_def)
qed

lemma seed_category_present:
  assumes "\<exists>c \<in> set (categories r). cat_id c = fst d"
  shows "seed_category now d r = Some r"
proof -
  obtain c where "categoryForPrimaryKey r (fst d) = Some c"
    using assms categoryForPrimaryKey_Some_iff by blast
  then show ?thesis by (simp add: seed_category_def)
qed

lemma seed_each_present:
  "\<forall>d \<in> set ds. \<exists>c \<in> set (categories r). cat_id c = fst d \<Longrightarrow> seed_each now ds r = Some r"
  by (induction ds) (simp_all add: seed_category_present)

lemma seed_each_Some:
  "\<exists>r'. seed_each now ds r = Some r' \<and> transactions r' = transactions r
       \<and> set (categories r) \<subseteq> set (categories r')
       \<and> (\<forall>d \<in> set ds. \<exists>c \<in> set (categories r'). cat_id c = fst d)"
proof (induction ds arbitrary: r)
  case Nil
  show ?case by simp
next
  case (Cons d ds)
  obtain r1 where r1: "seed_category now d r = Some r1" "transactions r1 = transactions r"
      "categories r1 = categories r \<or> categories r1 = categories r @ [default_category now d]"
      "\<exists>c \<in> set (categories r1). cat_id c = fst d"
    using seed_category_Some by blast
  obtain r2 where r2: "seed_each now ds r1 = Some r2" "transactions r2 = transactions r1"
      "set (categories r1) \<subseteq> set (categories r2)"
      "\<forall>d \<in> set ds. \<exists>c \<in> set (categories r2). cat_id c = fst d"
    using Cons.IH by blast
  have "set (categories r) \<subseteq> set (categories r1)" using r1(3) by auto
  with r1 r2 show ?case by auto
qed

lemma seed_repeatedly_fixed:
  "\<forall>d \<in> set DEFAULT_CATEGORIES. \<exists>c \<in> set (categories r). cat_id c = fst d
     \<Longrightarrow> seed_repeatedly nows r = Some r"
  by (induction nows) (simp_all add: seedDefaultCategories_def seed_each_present)

lemma seed_fresh:
  "seedDefaultCategories now empty_realm
     = Some \<lparr>transactions = [], categories = map (default_category now) DEFAULT_CATEGORIES\<rparr>"
  by (simp add: seedDefaultCategories_def DEFAULT_CATEGORIES_def seed_category_def
      categoryForPrimaryKey_def realm_create_cat_def default_category_def empty_realm_def)

text \<open>
  On every store the loop completes and appends, in the order of the list, a record for
  each default whose id the store does not hold; nothing else changes.
\<close>

lemma seed_each_result:
  "distinct (map fst ds) \<Longrightarrow>
     seed_each now ds r
       = Some (r\<lparr>categories := categories r
                  @ map (default_category now)
                      (filter (\<lambda>d. fst d \<notin> cat_id ` set (categories r)) ds)\<rparr>)"
proof (induction ds arbitrary: r)
  case Nil
  show ?case by simp
next
  case (Cons d ds)
  from Cons.prems have dd: "distinct (map fst ds)" and nd: "fst d \<notin> fst ` set ds" by simp_all
  show ?case
  proof (cases "fst d \<in> cat_id ` set (categories r)")
    case True
    then have "\<exists>c \<in> set (categories r). cat_id c = fst d" by force
    then have "seed_category now d r = Some r"
      by (rule seed_category_present)
    with True show ?thesis by (simp add: Cons.IH [OF dd])
  next
    case False
    then have nin: "\<forall>c \<in> set (categories r). cat_id c \<noteq> fst d"
      by (metis image_eqI)
    then have "categoryForPrimaryKey r (fst d) = None"
      by (simp add: categoryForPrimaryKey_def find_cat_None)
    with nin have sc: "seed_category now d r = Some (r\<lparr>categories := categories r @ [default_category now d]\<rparr>)"
      by (simp add: seed_category_def realm_create_cat_def default_category_def)
    have "filter (\<lambda>e. fst e \<notin> cat_id ` set (categories r @ [default_category now d])) ds
        = filter (\<lambda>e. fst e \<notin> cat_id ` set (categories r)) ds"
    proof (rule filter_cong [OF refl])
      fix e assume "e \<in> set ds"
      then have "fst e \<in> fst ` set ds" by (rule imageI)
      with nd have "fst e \<noteq> fst d" by metis
      then show "(fst e \<notin> cat_id ` set (categories r @ [default_category now d]))
          = (fst e \<notin> cat_id ` set (categories r))"
        by (simp add: default_category_def)
    qed
    with False sc show ?thesis by (simp add: Cons.IH [OF dd])
  qed
qed

lemma distinct_default_ids: "distinct (map fst DEFAULT_CATEGORIES)"
  by (simp add: DEFAULT_CATEGORIES_def)

lemma seedDefaultCategories_result:
  "seedDefaultCategories now r
     = Some (r\<lparr>categories := categories r
                @ map (default_category now)
                    (filter (\<lambda>d. fst d \<notin> cat_id ` set (categories r)) DEFAULT_CATEGORIES)\<rparr>)"
  by (simp add: seedDefaultCategories_def seed_each_result [OF distinct_default_ids])

lemma seedDefaultCategories_present:
  assumes "fst ` set DEFAULT_CATEGORIES \<subseteq> cat_id ` set (categories r)"
  shows "seedDefaultCategories now r = Some r"
proof -
  have "filter (\<lambda>d. fst d \<notin> cat_id ` set (categories r)) DEFAULT_CATEGORIES = []"
    using assms by (auto simp: filter_empty_conv)
  then show ?thesis by (simp add: seedDefaultCategories_result)
qed

lemma seed_repeatedly_present:
  "fst ` set DEFAULT_CATEGORIES \<subseteq> cat_id ` set (categories r) \<Longrightarrow> seed_repeatedly nows r = Some r"
  by (induction nows) (simp_all add: seedDefaultCategories_present)

lemma seeded_holds_defaults:
  assumes "seedDefaultCategories now r = Some r1"
  shows "fst ` set DEFAULT_CATEGORIES \<subseteq> cat_id ` set (categories r1)"
proof
  fix k assume "k \<in> fst ` set DEFAULT_CATEGORIES"
  then obtain d where d: "d \<in> set DEFAULT_CATEGORIES" "k = fst d" by auto
  from seed_each_Some [of now DEFAULT_CATEGORIES r] assms
  have "\<forall>d \<in> set DEFAULT_CATEGORIES. \<exists>c \<in> set (categories r1). cat_id c = fst d"
    by (auto simp: seedDefaultCategories_def)
  with d show "k \<in> cat_id ` set (categories r1)" by force
qed

lemma seeded_distinct:
  assumes "distinct (map cat_id (categories r))" "seedDefaultCategories now r = Some r1"
  shows "distinct (map cat_id (categories r1))"
proof -
  let ?new = "filter (\<lambda>d. fst d \<notin> cat_id ` set (categories r)) DEFAULT_CATEGORIES"
  have r1: "categories r1 = categories r @ map (default_category now) ?new"
    using assms(2) by (auto simp: seedDefaultCategories_result)
  have ids: "map cat_id (map (default_category now) ?new) = map fst ?new"
    by (simp add: default_category_def)
  have "distinct (map fst ?new)"
    using distinct_default_ids by (simp add: distinct_map_filter)
  moreover have "set (map cat_id (categories r)) \<inter> set (map fst ?new) = {}"
    by auto
  ultimately show ?thesis
    using assms(1) by (simp only: r1 map_append ids distinct_append)
qed

text \<open>
  Claim C9. On the empty store the seeding routine creates exactly the six default
  categories, with the ids, names and icons of \<open>DEFAULT_CATEGORIES\<close>, \<open>userDefined = false\<close>
  and both dates the current time. On every store the routine completes (the existence
  check keeps \<open>realm.create\<close> from meeting an existing key): it leaves the transactions and
  the categories present as they are and appends a record for exactly those defaults whose
  id the store does not hold, so ids that were distinct stay distinct. On every store that
  already holds the six default ids, whatever else it holds, a run changes nothing, and so
  does any number of further runs at any times; the store a run leaves is such a store.
  The effect of a hook instance does nothing when its \<open>seededRef\<close> flag is set, and
  otherwise sets the flag and runs the routine once, without throwing.
\<close>

theorem default_seeding_idempotent:
  "seedDefaultCategories now empty_realm
     = Some \<lparr>transactions = [],
             categories =
               [\<lparr>cat_id = ''cat-food'', cat_name = ''Food & Drink'', cat_icon = ''fast-food-outline'',
                 userDefined = False, createdAt = now, cat_updatedAt = now\<rparr>,
                \<lparr>cat_id = ''cat-transport'', cat_name = ''Transport'', cat_icon = ''bus-outline'',
                 userDefined = False, createdAt = now, cat_updatedAt = now\<rparr>,
                \<lparr>cat_id = ''cat-entertainment'', cat_name = ''Entertainment'',
                 cat_icon = ''game-controller-outline'',
                 userDefined = False, createdAt = now, cat_updatedAt = now\<rparr>,
                \<lparr>cat_id = ''cat-school'', cat_name = ''School'', cat_icon = ''book-outline'',
                 userDefined = False, createdAt = now, cat_updatedAt = now\<rparr>,
                \<lparr>cat_id = ''cat-shopping'', cat_name = ''Shopping'', cat_icon = ''cart-outline'',
                 userDefined = False, createdAt = now, cat_updatedAt = now\<rparr>,
                \<lparr>cat_id = ''cat-other'', cat_name = ''Other'', cat_icon = ''apps-outline'',
                 userDefined = False, createdAt = now, cat_updatedAt = now\<rparr>]\<rparr>
   \<and> seedDefaultCategories now r
       = Some (r\<lparr>categories := categories r
                  @ map (default_category now)
                      (filter (\<lambda>d. fst d \<notin> cat_id ` set (categories r)) DEFAULT_CATEGORIES)\<rparr>)
   \<and> (fst ` set DEFAULT_CATEGORIES \<subseteq> cat_id ` set (categories r) \<longrightarrow>
        seedDefaultCategories now r = Some r \<and> seed_repeatedly nows r = Some r
        \<and> seedingEffect now (False, r) = (Returned, (True, r)))
   \<and> (seedDefaultCategories now r = Some r1 \<longrightarrow>
        fst ` set DEFAULT_CATEGORIES \<subseteq> cat_id ` set (categories r1)
        \<and> seed_repeatedly nows r1 = Some r1
        \<and> seedingEffect now' (False, r1) = (Returned, (True, r1)))
   \<and> (seedDefaultCategories now r = Some r1 \<and> distinct (map cat_id (categories r)) \<longrightarrow>
        distinct (map cat_id (categories r1)))
   \<and> seedingEffect now (True, r) = (Returned, (True, r))
   \<and> seedingEffect now (False, r)
       = (Returned,
          (True, r\<lparr>categories := categories r
                     @ map (default_category now)
                         (filter (\<lambda>d. fst d \<notin> cat_id ` set (categories r)) DEFAULT_CATEGORIES)\<rparr>))"
proof -
  have a: "seedDefaultCategories now empty_realm
     = Some \<lparr>transactions = [],
             categories =
               [\<lparr>cat_id = ''cat-food'', cat_name = ''Food & Drink'', cat_icon = ''fast-food-outline'',
                 userDefined = False, createdAt = now, cat_updatedAt = now\<rparr>,
                \<lparr>cat_id = ''cat-transport'', cat_name = ''Transport'', cat_icon = ''bus-outline'',
                 userDefined = False, createdAt = now, cat_updatedAt = now\<rparr>,
                \<lparr>cat_id = ''cat-entertainment'', cat_name = ''Entertainment'',
                 cat_icon = ''game-controller-outline'',
                 userDefined = False, createdAt = now, cat_updatedAt = now\<rparr>,
                \<lparr>cat_id = ''cat-school'', cat_name = ''School'', cat_icon = ''book-outline'',
                 userDefined = False, createdAt = now, cat_updatedAt = now\<rparr>,
                \<lparr>cat_id = ''cat-shopping'', cat_name = ''Shopping'', cat_icon = ''cart-outline'',
                 userDefined = False, createdAt = now, cat_updatedAt = now\<rparr>,
                \<lparr>cat_id = ''cat-other'', cat_name = ''Other'', cat_icon = ''apps-outline'',
                 userDefined = False, createdAt = now, cat_updatedAt = now\<rparr>]\<rparr>"
    by (simp add: seed_fresh DEFAULT_CATEGORIES_def default_category_def)
  have b: "seedDefaultCategories now' r' = Some r' \<and> seed_repeatedly nows r' = Some r'
        \<and> seedingEffect now' (False, r') = (Returned, (True, r'))"
    if "fst ` set DEFAULT_CATEGORIES \<subseteq> cat_id ` set (categories r')" for now' r'
    using that by (simp add: seedDefaultCategories_present seed_repeatedly_present seedingEffect_def)
  have c: "fst ` set DEFAULT_CATEGORIES \<subseteq> cat_id ` set (categories r1)
        \<and> seed_repeatedly nows r1 = Some r1
        \<and> seedingEffect now' (False, r1) = (Returned, (True, r1))"
    if "seedDefaultCategories now r = Some r1"
    using b [OF seeded_holds_defaults [OF that]] seeded_holds_defaults [OF that] by blast
  have d: "distinct (map cat_id (categories r1))"
    if "seedDefaultCategories now r = Some r1" "distinct (map cat_id (categories r))"
    using seeded_distinct [OF that(2,1)] .
  have e: "seedingEffect now (True, r) = (Returned, (True, r))"
    by (simp add: seedingEffect_def)
  have f: "seedingEffect now (False, r)
       = (Returned,
          (True, r\<lparr>categories := categories r
                     @ map (default_category now)
                         (filter (\<lambda>d. fst d \<notin> cat_id ` set (categories r)) DEFAULT_CATEGORIES)\<rparr>))"
    by (simp add: seedingEffect_def seedDefaultCategories_result)
  show ?thesis
    using a seedDefaultCategories_result [of now r] b [of r now] c d e f by blast
qed

text \<open>
  A store with the six defaults, a category of the user's and a transaction: seeding it
  again changes nothing. A store with only a category of the user's gets the six defaults
  after it.
\<close>

theorem default_seeding_idempotent_witness:
  "fst ` set DEFAULT_CATEGORIES \<subseteq> cat_id ` set (categories seeded_realm)
   \<and> length (categories seeded_realm) = 7
   \<and> seedDefaultCategories 8 seeded_realm = Some seeded_realm
   \<and> seed_repeatedly [8, 9, 10] seeded_realm = Some seeded_realm
   \<and> seedingEffect 8 (False, seeded_realm) = (Returned, (True, seeded_realm))
   \<and> seedDefaultCategories 8 sample_realm
       = Some (sample_realm\<lparr>categories := sample_cat # map (default_category 8) DEFAULT_CATEGORIES\<rparr>)"
proof -
  have h: "fst ` set DEFAULT_CATEGORIES \<subseteq> cat_id ` set (categories seeded_realm)"
    by (simp add: seeded_realm_def DEFAULT_CATEGORIES_def default_category_def sample_cat_def)
  have l: "length (categories seeded_realm) = 7"
    by (simp add: seeded_realm_def DEFAULT_CATEGORIES_def)
  note inst = default_seeding_idempotent [of 8 seeded_realm "[8, 9, 10]" seeded_realm 8]
  from inst h have 1: "seedDefaultCategories 8 seeded_realm = Some seeded_realm" by blast
  from inst h have 2: "seed_repeatedly [8, 9, 10] seeded_realm = Some seeded_realm" by blast
  from inst h have 3: "seedingEffect 8 (False, seeded_realm) = (Returned, (True, seeded_realm))" by blast
  have 4: "seedDefaultCategories 8 sample_realm
       = Some (sample_realm\<lparr>categories := sample_cat # map (default_category 8) DEFAULT_CATEGORIES\<rparr>)"
    by (simp add: seedDefaultCategories_result sample_realm_def sample_cat_def DEFAULT_CATEGORIES_def)
  show ?thesis using h l 1 2 3 4 by blast
qed

section \<open>Maintenance purge\<close>

text \<open>The year search meets the definition of \<open>YearFromTime\<close>.\<close>

lemma int_div_bounds:
  fixes a k :: int
  assumes "0 < k"
  shows "k * (a div k) \<le> a \<and> a - (k - 1) \<le> k * (a div k)"
  using mult_div_mod_eq [of k a] pos_mod_bound [OF assms, of a] pos_mod_sign [OF assms, of a]
  by linarith

lemma DayFromYear_bounds:
  "400 * DayFromYear y \<le> 146097 * (y - 1970) + 589 \<and> 146097 * (y - 1970) - 506 \<le> 400 * DayFromYear y"
proof -
  define a where "a = (y - 1969) div 4"
  define b where "b = (y - 1901) div 100"
  define c where "c = (y - 1601) div 400"
  have a: "400 * a \<le> 100 * y - 196900" "100 * y - 197200 \<le> 400 * a"
    using int_div_bounds [of 4 "y - 1969"] by (simp_all add: a_def)
  have b: "400 * b \<le> 4 * y - 7604" "4 * y - 8000 \<le> 400 * b"
    using int_div_bounds [of 100 "y - 1901"] by (simp_all add: b_def)
  have c: "400 * c \<le> y - 1601" "y - 2000 \<le> 400 * c"
    using int_div_bounds [of 400 "y - 1601"] by (simp_all add: c_def)
  have d: "400 * DayFromYear y = 146000 * y - 287620000 + 400 * a - 400 * b + 400 * c"
    by (simp add: DayFromYear_def a_def b_def c_def)
  have "400 * DayFromYear y \<le> 146097 * y - 287810501" using a(1) b(2) c(1) d by linarith
  moreover have "146097 * y - 287811596 \<le> 400 * DayFromYear y" using a(2) b(1) c(2) d by linarith
  ultimately show ?thesis by simp
qed

lemma DayFromYear_low_year:
  "DayFromYear (1970 + min (d div 365) (d div 366) - 1) \<le> d"
proof -
  define p where "p = d div 365"
  define q where "q = d div 366"
  define D where "D = DayFromYear (1970 + min p q - 1)"
  have "365 * p \<le> d" "d - 364 \<le> 365 * p" "366 * q \<le> d" "d - 365 \<le> 366 * q"
    using int_div_bounds [of 365 d] int_div_bounds [of 366 d] by (simp_all add: p_def q_def)
  moreover have "400 * D \<le> 146097 * (min p q - 1) + 589"
    using DayFromYear_bounds [of "1970 + min p q - 1"] by (simp add: D_def)
  ultimately have "D \<le> d" by (cases "p \<le> q") (simp_all add: min_def)
  then show ?thesis by (simp add: D_def p_def q_def)
qed

lemma DayFromYear_high_year:
  "d < DayFromYear (1970 + max (d div 365) (d div 366) + 1 + 1)"
proof -
  define p where "p = d div 365"
  define q where "q = d div 366"
  define D where "D = DayFromYear (1970 + max p q + 1 + 1)"
  have "365 * p \<le> d" "d - 364 \<le> 365 * p" "366 * q \<le> d" "d - 365 \<le> 366 * q"
    using int_div_bounds [of 365 d] int_div_bounds [of 366 d] by (simp_all add: p_def q_def)
  moreover have "146097 * (max p q + 2) - 506 \<le> 400 * D"
    using DayFromYear_bounds [of "1970 + max p q + 1 + 1"] by (simp add: D_def)
  ultimately have "d < D" by (cases "p \<le> q") (simp_all add: max_def)
  then show ?thesis by (simp add: D_def p_def q_def)
qed

lemma search_upto:
  fixes lo hi :: int
  assumes "lo \<le> hi" "P lo"
  shows "P (foldl (\<lambda>y c. if P c then c else y) lo [lo..hi])
       \<and> lo \<le> foldl (\<lambda>y c. if P c then c else y) lo [lo..hi]
       \<and> foldl (\<lambda>y c. if P c then c else y) lo [lo..hi] \<le> hi
       \<and> (foldl (\<lambda>y c. if P c then c else y) lo [lo..hi] = hi
           \<or> \<not> P (foldl (\<lambda>y c. if P c then c else y) lo [lo..hi] + 1))"
  using assms(1)
proof (induction hi rule: int_ge_induct)
  case base
  show ?case using assms(2) by simp
next
  case (step h)
  have "[lo..h + 1] = [lo..h] @ [h + 1]"
    using step.hyps by (simp add: upto_rec2)
  then show ?case using step.IH by auto
qed

lemma YearFromTime_spec:
  "TimeFromYear (YearFromTime t) \<le> t \<and> t < TimeFromYear (YearFromTime t + 1)"
proof -
  define d where "d = Day t"
  define lo where "lo = 1970 + min (d div 365) (d div 366) - 1"
  define hi where "hi = 1970 + max (d div 365) (d div 366) + 1"
  let ?P = "\<lambda>c. TimeFromYear c \<le> t"
  have dt: "msPerDay * d \<le> t" "t < msPerDay * (d + 1)"
    using int_div_bounds [of msPerDay t] by (simp_all add: d_def Day_def msPerDay_def)
  have y: "YearFromTime t = foldl (\<lambda>y c. if ?P c then c else y) lo [lo..hi]"
    by (simp add: YearFromTime_def Let_def d_def lo_def hi_def)
  have "lo \<le> hi" by (simp add: lo_def hi_def)
  moreover have "?P lo"
    using DayFromYear_low_year [of d] dt(1) by (simp add: TimeFromYear_def lo_def msPerDay_def)
  ultimately have s: "?P (YearFromTime t)" "YearFromTime t = hi \<or> \<not> ?P (YearFromTime t + 1)"
    using search_upto [of lo hi ?P] by (simp_all add: y)
  have "\<not> ?P (hi + 1)"
    using DayFromYear_high_year [of d] dt(2) by (simp add: TimeFromYear_def hi_def msPerDay_def)
  with s show ?thesis by auto
qed

lemma DayFromYear_less_next: "DayFromYear y < DayFromYear (y + 1)"
proof -
  define a where "a = (y - 1969) div 4"
  define a' where "a' = (y + 1 - 1969) div 4"
  define b where "b = (y - 1901) div 100"
  define b' where "b' = (y + 1 - 1901) div 100"
  define c where "c = (y - 1601) div 400"
  define c' where "c' = (y + 1 - 1601) div 400"
  have "a \<le> a'" unfolding a_def a'_def by (rule zdiv_mono1) simp_all
  moreover have "(y + 1 - 1901) div 100 \<le> (y - 1901 + 100) div 100"
    by (rule zdiv_mono1) simp_all
  then have "b' \<le> b + 1" by (simp add: b_def b'_def)
  moreover have "c \<le> c'" unfolding c_def c'_def by (rule zdiv_mono1) simp_all
  moreover have "DayFromYear y = 365 * (y - 1970) + a - b + c"
    by (simp add: DayFromYear_def a_def b_def c_def)
  moreover have "DayFromYear (y + 1) = 365 * (y + 1 - 1970) + a' - b' + c'"
    by (simp add: DayFromYear_def a'_def b'_def c'_def)
  ultimately show ?thesis by simp
qed

lemma DayFromYear_mono: "y \<le> y' \<Longrightarrow> DayFromYear y \<le> DayFromYear y'"
proof (induction y' rule: int_ge_induct)
  case base
  show ?case by simp
next
  case (step i)
  then show ?case using DayFromYear_less_next [of i] by linarith
qed

lemma YearFromTime_largest:
  assumes "TimeFromYear y \<le> t"
  shows "y \<le> YearFromTime t"
proof (rule ccontr)
  assume "\<not> y \<le> YearFromTime t"
  then have "YearFromTime t + 1 \<le> y" by simp
  then have "DayFromYear (YearFromTime t + 1) \<le> DayFromYear y" by (rule DayFromYear_mono)
  then have "TimeFromYear (YearFromTime t + 1) \<le> TimeFromYear y"
    by (simp add: TimeFromYear_def msPerDay_def)
  with assms YearFromTime_spec [of t] show False by linarith
qed

text \<open>
  Setting the day of the month to \<open>getDate() - n\<close> moves the local time back by \<open>n\<close> days
  of 24 hours; the result is read as a local time again.
\<close>

lemma month_range: "0 \<le> MonthFromTime t \<and> MonthFromTime t < 12"
  by (simp add: MonthFromTime_def Let_def)

lemma month_values: "MonthFromTime t \<in> {0, 1, 2, 3, 4, 5, 6, 7, 8, 9, 10, 11}"
  by (simp add: MonthFromTime_def Let_def)

lemma DateFromTime_Day:
  "DateFromTime t
     = Day t - (DayFromYear (YearFromTime t)
                + days_before_month (DaysInYear (YearFromTime t) = 366) (MonthFromTime t)) + 1"
  using month_values [of t]
  by (elim insertE emptyE)
     (simp_all add: DateFromTime_def days_before_month_def DayWithinYear_def InLeapYear_def Let_def)

lemma MakeDay_back:
  "MakeDay (YearFromTime t) (MonthFromTime t) (DateFromTime t - n) = Day t - n"
proof -
  have "MonthFromTime t div 12 = 0" "MonthFromTime t mod 12 = MonthFromTime t"
    using month_range [of t] by simp_all
  then show ?thesis
    by (simp add: MakeDay_def Let_def DateFromTime_Day)
qed

lemma retentionThreshold_eq:
  "retentionThreshold tz now n = TimeClip (UTC tz (LocalTime tz now - n * msPerDay))"
proof -
  have "MakeDate (Day t - n) (TimeWithinDay t) = t - n * msPerDay" for t
    by (simp add: MakeDate_def Day_def TimeWithinDay_def algebra_simps)
  then show ?thesis
    by (simp add: retentionThreshold_def setDate_def getDate_def Let_def MakeDay_back)
qed

lemma retentionThreshold_Some:
  "retentionThreshold tz now n = Some th \<longleftrightarrow>
     th = now + LocalTZA_utc tz now - n * 86400000
            - LocalTZA_local tz (now + LocalTZA_utc tz now - n * 86400000)
     \<and> \<bar>th\<bar> \<le> 8640000000000000"
  by (auto simp: retentionThreshold_eq TimeClip_def UTC_def LocalTime_def msPerDay_def)

lemma eligible_iff:
  "isTombstoneEligibleForPurge_cfg cfg tz now t d \<longleftrightarrow>
     deleted t = True \<and> syncStatus t = Synced
     \<and> (\<exists>th. retentionThreshold tz now (nullish d (TOMBSTONE_RETENTION_DAYS cfg)) = Some th
              \<and> txn_updatedAt t < th)"
  by (auto simp: isTombstoneEligibleForPurge_cfg_def split: option.splits)

lemma collect_toPurge_subset:
  "set (collect_toPurge cfg tz now ts acc)
     \<subseteq> set acc \<union> {t \<in> set ts. isTombstoneEligibleForPurge_cfg cfg tz now t None}"
proof (induction ts arbitrary: acc)
  case Nil
  show ?case by simp
next
  case (Cons a ts)
  show ?case
    using Cons.IH [of "acc @ [a]"] Cons.IH [of acc] by (auto simp: Let_def)
qed

lemma collect_toPurge_all:
  "length acc + length (filter (\<lambda>t. isTombstoneEligibleForPurge_cfg cfg tz now t None) ts) < PURGE_BATCH_SIZE cfg
     \<Longrightarrow> collect_toPurge cfg tz now ts acc
           = acc @ filter (\<lambda>t. isTombstoneEligibleForPurge_cfg cfg tz now t None) ts"
  by (induction ts arbitrary: acc) (auto simp: Let_def)

lemma delete_each_result:
  "delete_each ps (n, r)
     = (n + length ps, r\<lparr>transactions := filter (\<lambda>x. txn_id x \<notin> txn_id ` set ps) (transactions r)\<rparr>)"
proof (induction ps arbitrary: n r)
  case Nil
  show ?case by simp
next
  case (Cons p ps)
  have "filter (\<lambda>x. txn_id x \<notin> txn_id ` set ps) (filter (\<lambda>x. txn_id x \<noteq> txn_id p) ts)
      = filter (\<lambda>x. txn_id x \<notin> txn_id ` set (p # ps)) ts" for ts
    by (induction ts) auto
  then show ?case by (simp add: Cons.IH)
qed

lemma pk_unique_same_id:
  "pk_unique r \<Longrightarrow> t \<in> set (transactions r) \<Longrightarrow> u \<in> set (transactions r)
     \<Longrightarrow> txn_id t = txn_id u \<Longrightarrow> t = u"
  by (auto simp: pk_unique_def distinct_map dest: inj_onD)

lemma purge_keeps_ineligible:
  assumes "pk_unique r" "t \<in> set (transactions r)" "\<not> isTombstoneEligibleForPurge_cfg cfg tz now t None"
  shows "t \<in> set (transactions (snd (purgeOldTombstones_cfg cfg tz now r)))"
proof (cases "ENABLE_TOMBSTONE_PURGE cfg")
  case False
  then show ?thesis using assms(2) by (simp add: purgeOldTombstones_cfg_def)
next
  case True
  let ?cand = "filter (\<lambda>t. deleted t = True \<and> syncStatus t = Synced) (transactions r)"
  let ?ps = "collect_toPurge cfg tz now ?cand []"
  have sub: "set ?ps \<subseteq> {u \<in> set (transactions r). isTombstoneEligibleForPurge_cfg cfg tz now u None}"
    using collect_toPurge_subset [of cfg tz now ?cand "[]"] by auto
  have "txn_id t \<notin> txn_id ` set ?ps"
  proof
    assume "txn_id t \<in> txn_id ` set ?ps"
    then obtain u where u: "u \<in> set ?ps" "txn_id t = txn_id u" by auto
    then have "u \<in> set (transactions r)" "isTombstoneEligibleForPurge_cfg cfg tz now u None"
      using sub by auto
    moreover from this u assms(1,2) have "t = u" by (auto dest: pk_unique_same_id)
    ultimately show False using assms(3) by simp
  qed
  then show ?thesis
    using True assms(2) by (simp add: purgeOldTombstones_cfg_def Let_def delete_each_result)
qed

lemma purge_removes_eligible:
  assumes "ENABLE_TOMBSTONE_PURGE cfg"
    "length (filter (\<lambda>t. isTombstoneEligibleForPurge_cfg cfg tz now t None) (transactions r)) < PURGE_BATCH_SIZE cfg"
    "isTombstoneEligibleForPurge_cfg cfg tz now t None"
  shows "t \<notin> set (transactions (snd (purgeOldTombstones_cfg cfg tz now r)))"
proof -
  let ?cand = "filter (\<lambda>t. deleted t = True \<and> syncStatus t = Synced) (transactions r)"
  have cand: "filter (\<lambda>t. isTombstoneEligibleForPurge_cfg cfg tz now t None) ?cand
      = filter (\<lambda>t. isTombstoneEligibleForPurge_cfg cfg tz now t None) (transactions r)"
    by (auto simp: eligible_iff intro: filter_cong)
  then have "collect_toPurge cfg tz now ?cand []
      = filter (\<lambda>t. isTombstoneEligibleForPurge_cfg cfg tz now t None) (transactions r)"
    using collect_toPurge_all [of "[]" cfg tz now ?cand] assms(2) by simp
  then show ?thesis
    using assms(1,3)
    by (auto simp: purgeOldTombstones_cfg_def Let_def delete_each_result)
qed

text \<open>The calendar functions at 2024-03-15T12:00Z, 08:00 of 15 March in New York.\<close>

lemma calendar_sample:
  "YearFromTime (LocalTime new_york purge_time) = 2024
   \<and> MonthFromTime (LocalTime new_york purge_time) = 2
   \<and> getDate new_york purge_time = 15
   \<and> setDate new_york purge_time (15 - 90) = Some 1702731600000
   \<and> setDate utc_zone purge_time (15 - 90) = Some 1702728000000"
  by code_simp

text \<open>
  Claim C8. A transaction is eligible for the purge exactly when it is deleted, its
  \<open>syncStatus\<close> is synced and its \<open>updatedAt\<close> lies before the retention threshold. The
  threshold is the current date with its day of the month moved back by the retention days
  (90 by default): the instant at which the local clock read what it reads now, that many
  calendar days earlier. In a zone of constant offset this is \<open>now\<close> less the retention
  days of 24 hours; where the offset has changed in between it differs from that by the
  change. (A threshold outside the range of dates makes nothing eligible.) Whatever the
  configuration, the purge keeps every transaction that is not eligible: a tombstone with
  \<open>syncStatus\<close> local of any age, and a tombstone updated within the last 24 hours when the
  zone's offsets then and now differ by no more than the retention days less one; under
  the default 90 days that is so in every zone whose offsets stay within a day of UTC.
  With the purge enabled and fewer eligible tombstones than the batch size, every eligible
  one is removed. With the feature flag off, as in the program's configuration,
  \<open>purgeOldTombstones\<close> returns 0 and the store is unchanged; it touches the store not at
  all, so nothing can throw.
\<close>

theorem purge_gate:
  "(isTombstoneEligibleForPurge_cfg cfg tz now t d \<longleftrightarrow>
      deleted t = True \<and> syncStatus t = Synced
      \<and> (let n = nullish d (TOMBSTONE_RETENTION_DAYS cfg);
              local = now + LocalTZA_utc tz now - n * 86400000;
              threshold = local - LocalTZA_local tz local
          in \<bar>threshold\<bar> \<le> 8640000000000000 \<and> txn_updatedAt t < threshold))
   \<and> (isTombstoneEligibleForPurge tz now t None \<longleftrightarrow>
        deleted t = True \<and> syncStatus t = Synced
        \<and> (let local = now + LocalTZA_utc tz now - 90 * 86400000;
                threshold = local - LocalTZA_local tz local
            in \<bar>threshold\<bar> \<le> 8640000000000000 \<and> txn_updatedAt t < threshold))
   \<and> ((\<forall>x. LocalTZA_utc tz x = c) \<and> (\<forall>x. LocalTZA_local tz x = c)
        \<and> \<bar>now - 90 * 86400000\<bar> \<le> 8640000000000000 \<longrightarrow>
        (isTombstoneEligibleForPurge tz now t None \<longleftrightarrow>
           deleted t = True \<and> syncStatus t = Synced \<and> txn_updatedAt t < now - 90 * 86400000))
   \<and> (pk_unique r \<and> t \<in> set (transactions r) \<and> syncStatus t = Local \<longrightarrow>
        t \<in> set (transactions (snd (purgeOldTombstones_cfg cfg tz now r))))
   \<and> (pk_unique r \<and> t \<in> set (transactions r) \<and> now - 86400000 \<le> txn_updatedAt t
        \<and> LocalTZA_utc tz now
             - LocalTZA_local tz (now + LocalTZA_utc tz now - TOMBSTONE_RETENTION_DAYS cfg * 86400000)
           \<le> (TOMBSTONE_RETENTION_DAYS cfg - 1) * 86400000 \<longrightarrow>
        t \<in> set (transactions (snd (purgeOldTombstones_cfg cfg tz now r))))
   \<and> ((\<forall>x. \<bar>LocalTZA_utc tz x\<bar> \<le> 86400000) \<and> (\<forall>x. \<bar>LocalTZA_local tz x\<bar> \<le> 86400000)
        \<and> now - 86400000 \<le> txn_updatedAt t \<longrightarrow>
        \<not> isTombstoneEligibleForPurge tz now t None)
   \<and> (pk_unique r \<and> t \<in> set (transactions r) \<and> \<not> isTombstoneEligibleForPurge_cfg cfg tz now t None \<longrightarrow>
        t \<in> set (transactions (snd (purgeOldTombstones_cfg cfg tz now r))))
   \<and> (ENABLE_TOMBSTONE_PURGE cfg \<and> isTombstoneEligibleForPurge_cfg cfg tz now t None
        \<and> length (filter (\<lambda>t. isTombstoneEligibleForPurge_cfg cfg tz now t None) (transactions r))
            < PURGE_BATCH_SIZE cfg \<longrightarrow>
        t \<notin> set (transactions (snd (purgeOldTombstones_cfg cfg tz now r))))
   \<and> (\<not> ENABLE_TOMBSTONE_PURGE cfg \<longrightarrow> purgeOldTombstones_cfg cfg tz now r = (0, r))
   \<and> purgeOldTombstones tz now r = (0, r)"
proof -
  have e: "isTombstoneEligibleForPurge_cfg cfg' tz now t d' \<longleftrightarrow>
      deleted t = True \<and> syncStatus t = Synced
      \<and> (let n = nullish d' (TOMBSTONE_RETENTION_DAYS cfg');
              local = now + LocalTZA_utc tz now - n * 86400000;
              threshold = local - LocalTZA_local tz local
          in \<bar>threshold\<bar> \<le> 8640000000000000 \<and> txn_updatedAt t < threshold)" for cfg' d'
    by (simp add: eligible_iff retentionThreshold_Some Let_def)
  have a: "isTombstoneEligibleForPurge tz now t None \<longleftrightarrow>
        deleted t = True \<and> syncStatus t = Synced
        \<and> (let local = now + LocalTZA_utc tz now - 90 * 86400000;
                threshold = local - LocalTZA_local tz local
            in \<bar>threshold\<bar> \<le> 8640000000000000 \<and> txn_updatedAt t < threshold)"
    using e [of MAINTENANCE_CONFIG None]
    by (simp add: isTombstoneEligibleForPurge_def MAINTENANCE_CONFIG_def nullish_def)
  have f: "isTombstoneEligibleForPurge tz now t None \<longleftrightarrow>
           deleted t = True \<and> syncStatus t = Synced \<and> txn_updatedAt t < now - 90 * 86400000"
    if "\<forall>x. LocalTZA_utc tz x = c" "\<forall>x. LocalTZA_local tz x = c"
      "\<bar>now - 90 * 86400000\<bar> \<le> 8640000000000000"
    using that by (simp add: a Let_def)
  have b: "syncStatus t = Local \<Longrightarrow> \<not> isTombstoneEligibleForPurge_cfg cfg tz now t None"
    by (simp add: eligible_iff)
  have c: "\<not> isTombstoneEligibleForPurge_cfg cfg tz now t None"
    if "now - 86400000 \<le> txn_updatedAt t"
      "LocalTZA_utc tz now
         - LocalTZA_local tz (now + LocalTZA_utc tz now - TOMBSTONE_RETENTION_DAYS cfg * 86400000)
       \<le> (TOMBSTONE_RETENTION_DAYS cfg - 1) * 86400000"
    using that by (simp add: e [of cfg None] Let_def nullish_def algebra_simps)
  have g: "\<not> isTombstoneEligibleForPurge tz now t None"
    if "\<forall>x. \<bar>LocalTZA_utc tz x\<bar> \<le> 86400000" "\<forall>x. \<bar>LocalTZA_local tz x\<bar> \<le> 86400000"
      "now - 86400000 \<le> txn_updatedAt t"
  proof -
    define p where "p = LocalTZA_utc tz now"
    define q where "q = LocalTZA_local tz (now + p - 90 * 86400000)"
    have "\<bar>p\<bar> \<le> 86400000" "\<bar>q\<bar> \<le> 86400000"
      using that(1,2) by (simp_all add: p_def q_def)
    with that(3) have "\<not> txn_updatedAt t < now + p - 90 * 86400000 - q" by linarith
    then show ?thesis by (simp add: a Let_def p_def q_def)
  qed
  have d: "purgeOldTombstones tz now r = (0, r)"
    by (simp add: purgeOldTombstones_def purgeOldTombstones_cfg_def MAINTENANCE_CONFIG_def)
  have h: "\<not> ENABLE_TOMBSTONE_PURGE cfg \<longrightarrow> purgeOldTombstones_cfg cfg tz now r = (0, r)"
    by (simp add: purgeOldTombstones_cfg_def)
  show ?thesis
    using e [of cfg d] a f b c g d h
      purge_keeps_ineligible [of r t cfg tz now] purge_removes_eligible [of cfg tz now r t]
    by blast
qed

text \<open>
  The sample store purged at 2024-03-15T12:00Z. In New York the clock was moved forward
  five days before, so the threshold is 89 days and 23 hours back and the tombstone
  \<open>edge\<close> is purged; in UTC it is kept.
\<close>

theorem purge_gate_witness:
  "purgeOldTombstones_cfg enabled_config new_york purge_time tombstone_realm
     = (2, \<lparr>transactions = [tombstone_at ''old-local'' Local 0, tombstone_at ''recent'' Synced 1710500400000],
            categories = []\<rparr>)
   \<and> purgeOldTombstones_cfg enabled_config utc_zone purge_time tombstone_realm
     = (1, \<lparr>transactions = [tombstone_at ''old-local'' Local 0, tombstone_at ''recent'' Synced 1710500400000,
                             tombstone_at ''edge'' Synced 1702729800000],
            categories = []\<rparr>)
   \<and> pk_unique tombstone_realm
   \<and> isTombstoneEligibleForPurge new_york purge_time (tombstone_at ''edge'' Synced 1702729800000) None
   \<and> \<not> isTombstoneEligibleForPurge utc_zone purge_time (tombstone_at ''edge'' Synced 1702729800000) None
   \<and> tombstone_at ''old-local'' Local 0
        \<in> set (transactions (snd (purgeOldTombstones_cfg enabled_config new_york purge_time tombstone_realm)))
   \<and> tombstone_at ''recent'' Synced 1710500400000
        \<in> set (transactions (snd (purgeOldTombstones_cfg enabled_config new_york purge_time tombstone_realm)))
   \<and> tombstone_at ''old-synced'' Synced 0
        \<notin> set (transactions (snd (purgeOldTombstones_cfg enabled_config new_york purge_time tombstone_realm)))
   \<and> purgeOldTombstones new_york purge_time tombstone_realm = (0, tombstone_realm)"
proof -
  let ?old_local = "tombstone_at ''old-local'' Local 0"
  let ?old_synced = "tombstone_at ''old-synced'' Synced 0"
  let ?recent = "tombstone_at ''recent'' Synced 1710500400000"
  let ?edge = "tombstone_at ''edge'' Synced 1702729800000"
  have th: "retentionThreshold new_york purge_time 90 = Some 1702731600000"
      "retentionThreshold utc_zone purge_time 90 = Some 1702728000000"
    by (simp_all add: retentionThreshold_Some new_york_def utc_zone_def purge_time_def)
  have sel: "deleted (tombstone_at k s u) = True" "syncStatus (tombstone_at k s u) = s"
      "txn_id (tombstone_at k s u) = k" "txn_updatedAt (tombstone_at k s u) = u" for k s u
    by (simp_all add: tombstone_at_def)
  have el: "isTombstoneEligibleForPurge_cfg enabled_config tz purge_time (tombstone_at k s u) None
      \<longleftrightarrow> s = Synced \<and> (\<exists>th. retentionThreshold tz purge_time 90 = Some th \<and> u < th)" for tz k s u
    by (simp add: eligible_iff sel enabled_config_def MAINTENANCE_CONFIG_def nullish_def)
  have cfg: "ENABLE_TOMBSTONE_PURGE enabled_config" "PURGE_BATCH_SIZE enabled_config = 100"
    by (simp_all add: enabled_config_def MAINTENANCE_CONFIG_def)
  have run: "purgeOldTombstones_cfg enabled_config new_york purge_time tombstone_realm
     = (2, \<lparr>transactions = [?old_local, ?recent], categories = []\<rparr>)"
    by (simp add: purgeOldTombstones_cfg_def cfg tombstone_realm_def sel el th Let_def)
  have run_utc: "purgeOldTombstones_cfg enabled_config utc_zone purge_time tombstone_realm
     = (1, \<lparr>transactions = [?old_local, ?recent, ?edge], categories = []\<rparr>)"
    by (simp add: purgeOldTombstones_cfg_def cfg tombstone_realm_def sel el th Let_def)
  have pk: "pk_unique tombstone_realm"
    by (simp add: pk_unique_def tombstone_realm_def sel)
  have mem: "?old_local \<in> set (transactions tombstone_realm)"
      "?recent \<in> set (transactions tombstone_realm)"
    by (simp_all add: tombstone_realm_def)
  have st: "syncStatus ?old_local = Local"
    by (simp add: sel)
  have recent: "purge_time - 86400000 \<le> txn_updatedAt ?recent"
      "LocalTZA_utc new_york purge_time
         - LocalTZA_local new_york
             (purge_time + LocalTZA_utc new_york purge_time
                - TOMBSTONE_RETENTION_DAYS enabled_config * 86400000)
       \<le> (TOMBSTONE_RETENTION_DAYS enabled_config - 1) * 86400000"
    by (simp_all add: enabled_config_def MAINTENANCE_CONFIG_def sel new_york_def purge_time_def)
  have edge: "isTombstoneEligibleForPurge new_york purge_time ?edge None"
      "\<not> isTombstoneEligibleForPurge utc_zone purge_time ?edge None"
    by (simp_all add: isTombstoneEligibleForPurge_def eligible_iff sel
        MAINTENANCE_CONFIG_def nullish_def th)
  note local_kept =
    purge_gate [of enabled_config new_york purge_time ?old_local None 0 tombstone_realm,
      THEN conjunct2, THEN conjunct2, THEN conjunct2, THEN conjunct1]
  note recent_kept =
    purge_gate [of enabled_config new_york purge_time ?recent None 0 tombstone_realm,
      THEN conjunct2, THEN conjunct2, THEN conjunct2, THEN conjunct2, THEN conjunct1]
  note disabled =
    purge_gate [of enabled_config new_york purge_time ?recent None 0 tombstone_realm,
      THEN conjunct2, THEN conjunct2, THEN conjunct2, THEN conjunct2, THEN conjunct2,
      THEN conjunct2, THEN conjunct2, THEN conjunct2, THEN conjunct2]
  have 1: "?old_local
        \<in> set (transactions (snd (purgeOldTombstones_cfg enabled_config new_york purge_time tombstone_realm)))"
    using local_kept pk mem(1) st by blast
  have 2: "?recent
        \<in> set (transactions (snd (purgeOldTombstones_cfg enabled_config new_york purge_time tombstone_realm)))"
    using recent_kept pk mem(2) recent by blast
  have 3: "?old_synced
        \<notin> set (transactions (snd (purgeOldTombstones_cfg enabled_config new_york purge_time tombstone_realm)))"
    by (simp add: run tombstone_at_def)
  have 4: "purgeOldTombstones new_york purge_time tombstone_realm = (0, tombstone_realm)"
    by (rule disabled)
  show ?thesis using run run_utc pk edge 1 2 3 4 by blast
qed

section \<open>Aggregates and soft deletion\<close>

lemma insort_key_map_pres:
  "(\<And>y. k (f y) = k y) \<Longrightarrow> map f (insort_key k x xs) = insort_key k (f x) (map f xs)"
  by (induction xs) simp_all

lemma sort_key_map_pres:
  "(\<And>y. k (f y) = k y) \<Longrightarrow> sort_key k (map f xs) = map f (sort_key k xs)"
  by (induction xs) (simp_all add: insort_key_map_pres)

lemma active_after_tombstone:
  "filter (\<lambda>t. deleted t = False) (map (tombstone now k) ys)
     = filter (\<lambda>t. txn_id t \<noteq> k) (filter (\<lambda>t. deleted t = False) ys)"
  by (induction ys) (auto simp: tombstone_def)

lemma find_tombstone:
  "find (\<lambda>t. txn_id t = k) ts = Some t
     \<Longrightarrow> find (\<lambda>t. txn_id t = k) (map (tombstone now k) ts)
           = Some (t\<lparr>deleted := True, txn_updatedAt := now, syncStatus := Local\<rparr>)"
  by (induction ts) (auto simp: tombstone_def split: if_splits)

lemma softDelete_found:
  assumes "softDeleteTransaction now k r = (True, r')"
  shows "\<exists>t. transactionForPrimaryKey r k = Some t
           \<and> r' = r\<lparr>transactions := map (tombstone now k) (transactions r)\<rparr>"
  using assms
  by (cases "transactionForPrimaryKey r k")
     (auto simp: softDeleteTransaction_def tombstone_def fun_eq_iff cong: map_cong)

lemma active_after_softDelete:
  assumes "softDeleteTransaction now k r = (True, r')"
  shows "activeTransactions r' = filter (\<lambda>t. txn_id t \<noteq> k) (activeTransactions r)"
proof -
  have r': "transactions r' = map (tombstone now k) (transactions r)"
    using softDelete_found [OF assms] by auto
  have "timestamp (tombstone now k y) = timestamp y" for y
    by (simp add: tombstone_def)
  then have "sort_key timestamp (map (tombstone now k) (transactions r))
      = map (tombstone now k) (sort_key timestamp (transactions r))"
    by (rule sort_key_map_pres)
  then have "orderedTransactions r' = map (tombstone now k) (orderedTransactions r)"
    by (simp add: orderedTransactions_def r' rev_map)
  then show ?thesis
    unfolding activeTransactions_def by (simp only: active_after_tombstone)
qed

lemma sum_active_unordered:
  "sum_list (map amountCents (filter P (activeTransactions r)))
     = sum_list (map amountCents (filter (\<lambda>t. P t \<and> deleted t = False) (transactions r)))"
proof -
  have "mset (filter P (activeTransactions r))
      = mset (filter (\<lambda>t. P t \<and> deleted t = False) (transactions r))"
    by (simp add: activeTransactions_def orderedTransactions_def conj_commute)
  then have "mset (map amountCents (filter P (activeTransactions r)))
      = mset (map amountCents (filter (\<lambda>t. P t \<and> deleted t = False) (transactions r)))"
    by (metis mset_map)
  then show ?thesis by (metis sum_mset_sum_list)
qed

text \<open>
  Claim C10. Over any collection, \<open>totalIncomeCents\<close> is the sum of \<open>amountCents\<close> of its
  income records, \<open>totalExpenseCents\<close> the sum over its expense records, and
  \<open>remainingBalanceCents\<close> their difference. With the collection omitted, all three range
  over the active transactions, the records of the store with \<open>deleted = false\<close>. After a
  successful \<open>softDeleteTransaction(id)\<close> the transaction is no longer among the active
  transactions, which are the former ones without it, so the three aggregates are those
  of the former active transactions without it; a lookup by id still finds it, marked
  deleted.
\<close>

theorem aggregates_over_active_transactions:
  "totalIncomeCents r (Some src) = (\<Sum>t\<leftarrow>filter (\<lambda>t. txn_type t = Income) src. amountCents t)
   \<and> totalExpenseCents r (Some src) = (\<Sum>t\<leftarrow>filter (\<lambda>t. txn_type t = Expense) src. amountCents t)
   \<and> remainingBalanceCents r (Some src) = totalIncomeCents r (Some src) - totalExpenseCents r (Some src)
   \<and> totalIncomeCents r None = totalIncomeCents r (Some (activeTransactions r))
   \<and> totalExpenseCents r None = totalExpenseCents r (Some (activeTransactions r))
   \<and> remainingBalanceCents r None = totalIncomeCents r None - totalExpenseCents r None
   \<and> set (activeTransactions r) = {t \<in> set (transactions r). deleted t = False}
   \<and> totalIncomeCents r None
       = (\<Sum>t\<leftarrow>filter (\<lambda>t. txn_type t = Income \<and> deleted t = False) (transactions r). amountCents t)
   \<and> totalExpenseCents r None
       = (\<Sum>t\<leftarrow>filter (\<lambda>t. txn_type t = Expense \<and> deleted t = False) (transactions r). amountCents t)
   \<and> (softDeleteTransaction now k r = (True, r') \<longrightarrow>
         k \<notin> txn_id ` set (activeTransactions r')
       \<and> activeTransactions r' = filter (\<lambda>t. txn_id t \<noteq> k) (activeTransactions r)
       \<and> totalIncomeCents r' None
           = totalIncomeCents r (Some (filter (\<lambda>t. txn_id t \<noteq> k) (activeTransactions r)))
       \<and> totalExpenseCents r' None
           = totalExpenseCents r (Some (filter (\<lambda>t. txn_id t \<noteq> k) (activeTransactions r)))
       \<and> remainingBalanceCents r' None
           = remainingBalanceCents r (Some (filter (\<lambda>t. txn_id t \<noteq> k) (activeTransactions r)))
       \<and> (\<exists>t. getTransactionById r' k = Some t \<and> txn_id t = k \<and> deleted t))"
proof -
  have a: "set (activeTransactions r) = {t \<in> set (transactions r). deleted t = False}"
    by (auto simp: activeTransactions_def orderedTransactions_def)
  have b: "totalIncomeCents r None
       = (\<Sum>t\<leftarrow>filter (\<lambda>t. txn_type t = Income \<and> deleted t = False) (transactions r). amountCents t)"
    by (simp add: totalIncomeCents_def nullish_def sum_active_unordered)
  have c: "totalExpenseCents r None
       = (\<Sum>t\<leftarrow>filter (\<lambda>t. txn_type t = Expense \<and> deleted t = False) (transactions r). amountCents t)"
    by (simp add: totalExpenseCents_def nullish_def sum_active_unordered)
  have d: "k \<notin> txn_id ` set (activeTransactions r')
       \<and> activeTransactions r' = filter (\<lambda>t. txn_id t \<noteq> k) (activeTransactions r)
       \<and> totalIncomeCents r' None
           = totalIncomeCents r (Some (filter (\<lambda>t. txn_id t \<noteq> k) (activeTransactions r)))
       \<and> totalExpenseCents r' None
           = totalExpenseCents r (Some (filter (\<lambda>t. txn_id t \<noteq> k) (activeTransactions r)))
       \<and> remainingBalanceCents r' None
           = remainingBalanceCents r (Some (filter (\<lambda>t. txn_id t \<noteq> k) (activeTransactions r)))
       \<and> (\<exists>t. getTransactionById r' k = Some t \<and> txn_id t = k \<and> deleted t)"
    if run: "softDeleteTransaction now k r = (True, r')"
  proof -
    note act = active_after_softDelete [OF run]
    obtain t where t: "transactionForPrimaryKey r k = Some t"
        and r': "r' = r\<lparr>transactions := map (tombstone now k) (transactions r)\<rparr>"
      using softDelete_found [OF run] by blast
    have idt: "txn_id t = k"
      using t by (auto simp: transactionForPrimaryKey_def dest: find_Some_iff [THEN iffD1])
    have "getTransactionById r' k = Some (t\<lparr>deleted := True, txn_updatedAt := now, syncStatus := Local\<rparr>)"
      using t by (simp add: getTransactionById_def transactionForPrimaryKey_def r' find_tombstone)
    then have e: "\<exists>t. getTransactionById r' k = Some t \<and> txn_id t = k \<and> deleted t"
      using idt by simp
    have f: "k \<notin> txn_id ` set (activeTransactions r')"
      by (auto simp: act)
    show ?thesis
      using e f
      by (simp add: act totalIncomeCents_def totalExpenseCents_def remainingBalanceCents_def nullish_def)
  qed
  have e: "totalIncomeCents r (Some src) = (\<Sum>t\<leftarrow>filter (\<lambda>t. txn_type t = Income) src. amountCents t)"
    by (simp add: totalIncomeCents_def nullish_def)
  have f: "totalExpenseCents r (Some src) = (\<Sum>t\<leftarrow>filter (\<lambda>t. txn_type t = Expense) src. amountCents t)"
    by (simp add: totalExpenseCents_def nullish_def)
  have g: "remainingBalanceCents r (Some src) = totalIncomeCents r (Some src) - totalExpenseCents r (Some src)"
    by (simp add: remainingBalanceCents_def nullish_def Let_def)
  have h: "totalIncomeCents r None = totalIncomeCents r (Some (activeTransactions r))"
    by (simp add: totalIncomeCents_def nullish_def)
  have i: "totalExpenseCents r None = totalExpenseCents r (Some (activeTransactions r))"
    by (simp add: totalExpenseCents_def nullish_def)
  have j: "remainingBalanceCents r None = totalIncomeCents r None - totalExpenseCents r None"
    by (simp add: remainingBalanceCents_def totalIncomeCents_def totalExpenseCents_def nullish_def Let_def)
  show ?thesis
    using a b c d e f g h i j by blast
qed

theorem aggregates_over_active_transactions_witness:
  "softDeleteTransaction 99 ''t1'' ledger_realm
     = (True, ledger_realm\<lparr>transactions :=
          [sample_txn\<lparr>deleted := True, txn_updatedAt := 99, syncStatus := Local\<rparr>, sample_deleted, sample_income]\<rparr>)
   \<and> activeTransactions ledger_realm = [sample_income, sample_txn]
   \<and> remainingBalanceCents ledger_realm None = 3750
   \<and> activeTransactions (snd (softDeleteTransaction 99 ''t1'' ledger_realm)) = [sample_income]
   \<and> remainingBalanceCents (snd (softDeleteTransaction 99 ''t1'' ledger_realm)) None = 4000
   \<and> totalExpenseCents (snd (softDeleteTransaction 99 ''t1'' ledger_realm)) None = 0"
proof -
  let ?r' = "ledger_realm\<lparr>transactions :=
          [sample_txn\<lparr>deleted := True, txn_updatedAt := 99, syncStatus := Local\<rparr>, sample_deleted, sample_income]\<rparr>"
  have run: "softDeleteTransaction 99 ''t1'' ledger_realm = (True, ?r')"
    by (simp add: softDeleteTransaction_def transactionForPrimaryKey_def ledger_realm_def
        sample_txn_def sample_deleted_def sample_income_def)
  have act: "activeTransactions ledger_realm = [sample_income, sample_txn]"
    by (simp add: activeTransactions_def orderedTransactions_def ledger_realm_def
        sample_txn_def sample_deleted_def sample_income_def)
  note inst = aggregates_over_active_transactions [of ledger_realm "[]" 99 "''t1''" ?r']
  have act': "activeTransactions ?r' = [sample_income]"
    using inst run act by (simp add: sample_txn_def sample_income_def)
  have bal: "remainingBalanceCents ledger_realm None = 3750"
    using inst act
    by (simp add: totalIncomeCents_def totalExpenseCents_def nullish_def sample_txn_def sample_income_def)
  have bal': "remainingBalanceCents ?r' None = 4000" "totalExpenseCents ?r' None = 0"
    using inst run act
    by (simp_all add: remainingBalanceCents_def totalIncomeCents_def totalExpenseCents_def nullish_def
        sample_txn_def sample_income_def)
  show ?thesis using run act act' bal bal' by simp
qed



section \<open>Sync engine: facts\<close>




lemma find_replace_cat:
  "find (\<lambda>c. cat_id c = k) (map (\<lambda>c. if cat_id c = cat_id v then v else c) cs)
     = (if k = cat_id v then (if \<exists>c \<in> set cs. cat_id c = k then Some v else None)
        else find (\<lambda>c. cat_id c = k) cs)"
  by (induction cs) auto

lemma find_append_cat:
  "find (\<lambda>c. cat_id c = k) (cs @ [v])
     = (case find (\<lambda>c. cat_id c = k) cs of
          None \<Rightarrow> if cat_id v = k then Some v else None
        | Some c \<Rightarrow> Some c)"
  by (induction cs) auto

lemma find_create_or_update_cat:
  "find (\<lambda>c. cat_id c = k) (create_or_update_cat v cs)
     = (if k = cat_id v then Some v else find (\<lambda>c. cat_id c = k) cs)"
proof (cases "\<exists>c \<in> set cs. cat_id c = cat_id v")
  case True
  then show ?thesis by (simp add: create_or_update_cat_def find_replace_cat)
next
  case False
  then have "find (\<lambda>c. cat_id c = cat_id v) cs = None"
    by (simp add: find_cat_None)
  with False show ?thesis
    by (auto simp: create_or_update_cat_def find_append_cat split: option.splits)
qed


lemma upsert_pulled_txn_categories:
  "categories (snd (upsertTransaction f now d r)) = categories r"
  by (simp add: upsertTransaction_def Let_def)



lemma merge_transactions_categories:
  "categories (merge_transactions now rows r) = categories r"
  unfolding merge_transactions_def
  by (induction rows arbitrary: r) (simp_all add: upsert_pulled_txn_categories)

lemma next_outcome_tables:
  "next_outcome sb = (x, sb') \<Longrightarrow>
     session_user sb' = session_user sb \<and> remote_transactions sb' = remote_transactions sb
     \<and> remote_categories sb' = remote_categories sb \<and> queries_asked sb' = queries_asked sb"
  by (auto simp: next_outcome_def split: list.splits)

lemma auth_getUser_cases:
  assumes "auth_getUser sb = (x, sb')"
  shows "session_user sb' = session_user sb \<and> remote_transactions sb' = remote_transactions sb
     \<and> remote_categories sb' = remote_categories sb \<and> queries_asked sb' = queries_asked sb
     \<and> (x = Inr (session_user sb) \<or> x = Inr None \<or> (\<exists>e. x = Inl e))"
proof -
  obtain y sb1 where n: "next_outcome sb = (y, sb1)" by (cases "next_outcome sb")
  note t = next_outcome_tables [OF n]
  show ?thesis
    using assms n t by (cases y) (auto simp: auth_getUser_def)
qed

lemma run_select_transactions_cases:
  assumes "run_select_transactions q sb = (x, sb')"
  shows "session_user sb' = session_user sb \<and> remote_transactions sb' = remote_transactions sb
     \<and> remote_categories sb' = remote_categories sb \<and> queries_asked sb' = queries_asked sb @ [q]
     \<and> (x = Inr \<lparr>resp_data = Some (select_transactions q (remote_transactions sb)), resp_error = None\<rparr>
        \<or> (\<exists>m. x = Inr \<lparr>resp_data = None, resp_error = Some m\<rparr>) \<or> (\<exists>e. x = Inl e))"
proof -
  let ?sb = "sb\<lparr>queries_asked := queries_asked sb @ [q]\<rparr>"
  obtain y sb1 where n: "next_outcome ?sb = (y, sb1)" by (cases "next_outcome ?sb")
  note t = next_outcome_tables [OF n]
  show ?thesis
    using assms n t by (cases y) (auto simp: run_select_transactions_def)
qed

lemma run_select_categories_cases:
  assumes "run_select_categories q sb = (x, sb')"
  shows "session_user sb' = session_user sb \<and> remote_transactions sb' = remote_transactions sb
     \<and> remote_categories sb' = remote_categories sb \<and> queries_asked sb' = queries_asked sb @ [q]
     \<and> (x = Inr \<lparr>resp_data = Some (select_categories q (remote_categories sb)), resp_error = None\<rparr>
        \<or> (\<exists>m. x = Inr \<lparr>resp_data = None, resp_error = Some m\<rparr>) \<or> (\<exists>e. x = Inl e))"
proof -
  let ?sb = "sb\<lparr>queries_asked := queries_asked sb @ [q]\<rparr>"
  obtain y sb1 where n: "next_outcome ?sb = (y, sb1)" by (cases "next_outcome ?sb")
  note t = next_outcome_tables [OF n]
  show ?thesis
    using assms n t by (cases y) (auto simp: run_select_categories_def)
qed

lemma pullTransactions_try_cases:
  assumes "pullTransactions_try since w = (x, w')"
  shows "phases_run w' = phases_run w \<and> clock w' = clock w
     \<and> session_user (backend w') = session_user (backend w)
     \<and> remote_transactions (backend w') = remote_transactions (backend w)
     \<and> remote_categories (backend w') = remote_categories (backend w)
     \<and> ((\<exists>uid. x = Inr sync_ok \<and> session_user (backend w) = Some uid
            \<and> store w' = merge_transactions (clock w)
                 (select_transactions (pullTransactionsQuery uid since) (remote_transactions (backend w)))
                 (store w))
        \<or> ((\<exists>m. x = Inr (sync_failed m)) \<and> store w' = store w)
        \<or> ((\<exists>e. x = Inl e) \<and> store w' = store w))"
proof -
  obtain u sb where g: "auth_getUser (backend w) = (u, sb)" by (cases "auth_getUser (backend w)")
  note gc = auth_getUser_cases [OF g]
  show ?thesis
  proof (cases u)
    case (Inl e)
    with assms g gc show ?thesis by (auto simp: pullTransactions_try_def)
  next
    case (Inr user)
    show ?thesis
    proof (cases user)
      case None
      with Inr assms g gc show ?thesis by (auto simp: pullTransactions_try_def)
    next
      case (Some uid)
      obtain y sb2 where q: "run_select_transactions (pullTransactionsQuery uid since) sb = (y, sb2)"
        by (cases "run_select_transactions (pullTransactionsQuery uid since) sb")
      note qc = run_select_transactions_cases [OF q]
      from Some Inr gc have su: "session_user (backend w) = Some uid" by auto
      show ?thesis
        using assms g q gc qc Some Inr su
        by (auto simp: pullTransactions_try_def nullish_def)
    qed
  qed
qed

lemma catch_sync_cases:
  assumes "catch_sync fallback (x, w) = (y, w')"
  shows "w' = w \<and> (\<exists>r. y = Inr r \<and> (x = Inr r \<or> ((\<exists>e. x = Inl e) \<and> (\<exists>m. r = sync_failed m))))"
  using assms by (auto simp: catch_sync_def split: sum.splits thrown.splits)

lemma pullTransactions_cases:
  assumes "pullTransactions since w = (y, w')"
  shows "phases_run w' = phases_run w @ [PullTransactions] \<and> clock w' = clock w
     \<and> session_user (backend w') = session_user (backend w)
     \<and> remote_transactions (backend w') = remote_transactions (backend w)
     \<and> remote_categories (backend w') = remote_categories (backend w)
     \<and> ((\<exists>uid. y = Inr sync_ok \<and> session_user (backend w) = Some uid
            \<and> store w' = merge_transactions (clock w)
                 (select_transactions (pullTransactionsQuery uid since) (remote_transactions (backend w)))
                 (store w))
        \<or> ((\<exists>m. y = Inr (sync_failed m)) \<and> store w' = store w))"
proof -
  let ?w0 = "w\<lparr>phases_run := phases_run w @ [PullTransactions]\<rparr>"
  obtain x w1 where t: "pullTransactions_try since ?w0 = (x, w1)"
    by (cases "pullTransactions_try since ?w0")
  note tc = pullTransactions_try_cases [OF t]
  from assms t have "catch_sync ''Failed to sync transactions'' (x, w1) = (y, w')"
    by (simp add: pullTransactions_def)
  note cc = catch_sync_cases [OF this]
  show ?thesis using tc cc by auto
qed





lemma lookup_upsert_pulled_cat:
  "categoryForPrimaryKey (snd (upsertCategory f now (pulled_category_draft row) r)) k
     = (if k = rc_id row then Some (pulled_category r row) else categoryForPrimaryKey r k)"
  by (cases "categoryForPrimaryKey r (rc_id row)")
     (simp_all add: upsertCategory_def categoryForPrimaryKey_def find_create_or_update_cat
      pulled_category_draft_def pulled_category_def nullish_def Let_def)

lemma merge_categories_other:
  "k \<notin> rc_id ` set rows \<Longrightarrow>
     categoryForPrimaryKey (merge_categories now rows r) k = categoryForPrimaryKey r k"
  unfolding merge_categories_def
  by (induction rows arbitrary: r) (simp_all add: lookup_upsert_pulled_cat)

lemma merge_categories_applied:
  "distinct (map rc_id rows) \<Longrightarrow> row \<in> set rows \<Longrightarrow>
     categoryForPrimaryKey (merge_categories now rows r) (rc_id row) = Some (pulled_category r row)"
proof (induction rows arbitrary: r)
  case Nil
  then show ?case by simp
next
  case (Cons a rows)
  let ?r1 = "snd (upsertCategory [] now (pulled_category_draft a) r)"
  have step: "merge_categories now (a # rows) r = merge_categories now rows ?r1"
    by (simp add: merge_categories_def)
  show ?case
  proof (cases "row \<in> set rows")
    case True
    then have "rc_id row \<in> rc_id ` set rows" by simp
    moreover from Cons.prems(1) have "rc_id a \<notin> rc_id ` set rows" by simp
    ultimately have "rc_id row \<noteq> rc_id a" by metis
    then have "pulled_category ?r1 row = pulled_category r row"
      by (simp add: pulled_category_def lookup_upsert_pulled_cat)
    with True Cons show ?thesis by (simp add: step)
  next
    case False
    with Cons.prems have "row = a" "rc_id a \<notin> rc_id ` set rows" by auto
    then show ?thesis
      by (simp add: step merge_categories_other lookup_upsert_pulled_cat)
  qed
qed

lemma pullCategories_try_cases:
  assumes "pullCategories_try w = (x, w')"
  shows "phases_run w' = phases_run w \<and> clock w' = clock w
     \<and> session_user (backend w') = session_user (backend w)
     \<and> remote_transactions (backend w') = remote_transactions (backend w)
     \<and> remote_categories (backend w') = remote_categories (backend w)
     \<and> ((\<exists>uid. x = Inr sync_ok \<and> session_user (backend w) = Some uid
            \<and> store w' = merge_categories (clock w)
                 (select_categories (pullCategoriesQuery uid) (remote_categories (backend w)))
                 (store w))
        \<or> ((\<exists>m. x = Inr (sync_failed m)) \<and> store w' = store w)
        \<or> ((\<exists>e. x = Inl e) \<and> store w' = store w))"
proof -
  obtain u sb where g: "auth_getUser (backend w) = (u, sb)" by (cases "auth_getUser (backend w)")
  note gc = auth_getUser_cases [OF g]
  show ?thesis
  proof (cases u)
    case (Inl e)
    with assms g gc show ?thesis by (auto simp: pullCategories_try_def)
  next
    case (Inr user)
    show ?thesis
    proof (cases user)
      case None
      with Inr assms g gc show ?thesis by (auto simp: pullCategories_try_def)
    next
      case (Some uid)
      obtain y sb2 where q: "run_select_categories (pullCategoriesQuery uid) sb = (y, sb2)"
        by (cases "run_select_categories (pullCategoriesQuery uid) sb")
      note qc = run_select_categories_cases [OF q]
      from Some Inr gc have su: "session_user (backend w) = Some uid" by auto
      show ?thesis
        using assms g q gc qc Some Inr su
        by (auto simp: pullCategories_try_def nullish_def)
    qed
  qed
qed

lemma pullCategories_cases:
  assumes "pullCategories w = (y, w')"
  shows "phases_run w' = phases_run w @ [PullCategories] \<and> clock w' = clock w
     \<and> session_user (backend w') = session_user (backend w)
     \<and> remote_transactions (backend w') = remote_transactions (backend w)
     \<and> remote_categories (backend w') = remote_categories (backend w)
     \<and> ((\<exists>uid. y = Inr sync_ok \<and> session_user (backend w) = Some uid
            \<and> store w' = merge_categories (clock w)
                 (select_categories (pullCategoriesQuery uid) (remote_categories (backend w)))
                 (store w))
        \<or> ((\<exists>m. y = Inr (sync_failed m)) \<and> store w' = store w))"
proof -
  let ?w0 = "w\<lparr>phases_run := phases_run w @ [PullCategories]\<rparr>"
  obtain x w1 where t: "pullCategories_try ?w0 = (x, w1)"
    by (cases "pullCategories_try ?w0")
  note tc = pullCategories_try_cases [OF t]
  from assms t have "catch_sync ''Failed to sync categories'' (x, w1) = (y, w')"
    by (simp add: pullCategories_def)
  note cc = catch_sync_cases [OF this]
  show ?thesis using tc cc by auto
qed

lemma select_categories_query:
  "select_categories (pullCategoriesQuery uid) rows
     = filter (\<lambda>row. rc_user_id row = uid \<and> rc_deleted_at row = None) rows"
  by (simp add: select_categories_def pullCategoriesQuery_def add_filter_def from_select_all_def)

text \<open>
  Claim C7 says that a pulled category takes \<open>createdAt\<close> from the remote record also
  when a local record with the same id exists. It does not: the sample store holds the
  category \<open>c\<close> created at 5, the remote row \<open>c\<close> was created at 9, and after the pull,
  and after the realtime handler for the same row, the local record still has
  \<open>createdAt = 5\<close>.
\<close>

theorem pulled_category_createdAt_counterexample:
  "fst (pullCategories sample_world) = Inr sync_ok
   \<and> categories (store sample_world) = [sample_cat] \<and> cat_id sample_cat = ''c'' \<and> createdAt sample_cat = 5
   \<and> remote_categories (backend sample_world) = [remote_cat_sample]
   \<and> rc_id remote_cat_sample = ''c'' \<and> rc_created_at remote_cat_sample = 9
   \<and> categories (store (snd (pullCategories sample_world)))
       = [\<lparr>cat_id = ''c'', cat_name = ''Cafe'', cat_icon = ''cafe'', userDefined = True,
           createdAt = 5, cat_updatedAt = 12\<rparr>]
   \<and> categories (onCategoryChange 100 UPDATE remote_cat_sample sample_realm)
       = [\<lparr>cat_id = ''c'', cat_name = ''Cafe'', cat_icon = ''cafe'', userDefined = True,
           createdAt = 5, cat_updatedAt = 12\<rparr>]"
  by (simp add: pullCategories_def pullCategories_try_def catch_sync_def auth_getUser_def
      run_select_categories_def next_outcome_def sample_world_def sample_backend_def
      sample_realm_def sample_cat_def remote_cat_sample_def select_categories_def
      pullCategoriesQuery_def add_filter_def from_select_all_def merge_categories_def
      upsertCategory_def categoryForPrimaryKey_def create_or_update_cat_def
      pulled_category_draft_def nullish_def sync_ok_def onCategoryChange_def Let_def)

text \<open>
  Claim C7, as the code has it. Every category row applied by a successful pull (the
  signed-in user's rows not deleted remotely) and by the realtime handler on an insert or
  update event is stored under its id with \<open>userDefined = true\<close>, name and icon from the
  row, and \<open>updatedAt\<close> the row's \<open>updated_at\<close>; \<open>createdAt\<close> is the row's \<open>created_at\<close> when
  the store had no record with that id, and the existing record's \<open>createdAt\<close> when it
  had one. A delete event changes nothing.
\<close>

theorem pulled_category_fields:
  "(pullCategories w = (Inr res, w') \<and> success res
      \<and> distinct (map rc_id (remote_categories (backend w))) \<longrightarrow>
      (\<exists>u. session_user (backend w) = Some u
        \<and> (\<forall>row \<in> set (select_categories (pullCategoriesQuery u) (remote_categories (backend w))).
              categoryForPrimaryKey (store w') (rc_id row)
                = Some \<lparr>cat_id = rc_id row, cat_name = rc_name row, cat_icon = rc_icon row,
                        userDefined = True,
                        createdAt = (case categoryForPrimaryKey (store w) (rc_id row) of
                                       None \<Rightarrow> rc_created_at row
                                     | Some existing \<Rightarrow> createdAt existing),
                        cat_updatedAt = rc_updated_at row\<rparr>)))
   \<and> select_categories (pullCategoriesQuery uid) rows
       = filter (\<lambda>row. rc_user_id row = uid \<and> rc_deleted_at row = None) rows
   \<and> (ev = INSERT \<or> ev = UPDATE \<longrightarrow>
        categoryForPrimaryKey (onCategoryChange now ev cat r) (rc_id cat)
          = Some \<lparr>cat_id = rc_id cat, cat_name = rc_name cat, cat_icon = rc_icon cat,
                  userDefined = True,
                  createdAt = (case categoryForPrimaryKey r (rc_id cat) of
                                 None \<Rightarrow> rc_created_at cat
                               | Some existing \<Rightarrow> createdAt existing),
                  cat_updatedAt = rc_updated_at cat\<rparr>)
   \<and> onCategoryChange now DELETE cat r = r"
proof -
  have ok: "\<exists>u. session_user (backend w) = Some u
        \<and> (\<forall>row \<in> set (select_categories (pullCategoriesQuery u) (remote_categories (backend w))).
              categoryForPrimaryKey (store w') (rc_id row)
                = Some \<lparr>cat_id = rc_id row, cat_name = rc_name row, cat_icon = rc_icon row,
                        userDefined = True,
                        createdAt = (case categoryForPrimaryKey (store w) (rc_id row) of
                                       None \<Rightarrow> rc_created_at row
                                     | Some existing \<Rightarrow> createdAt existing),
                        cat_updatedAt = rc_updated_at row\<rparr>)"
    if run: "pullCategories w = (Inr res, w')" and s: "success res"
      and d: "distinct (map rc_id (remote_categories (backend w)))"
  proof -
    from pullCategories_cases [OF run] s
    obtain u where u: "session_user (backend w) = Some u"
      and st: "store w' = merge_categories (clock w)
                 (select_categories (pullCategoriesQuery u) (remote_categories (backend w)))
                 (store w)"
      by (auto simp: sync_failed_def)
    let ?rows = "select_categories (pullCategoriesQuery u) (remote_categories (backend w))"
    have dr: "distinct (map rc_id ?rows)"
      using d by (simp add: select_categories_def distinct_map_filter)
    have a: "\<forall>row \<in> set ?rows. categoryForPrimaryKey (store w') (rc_id row)
        = Some (pulled_category (store w) row)"
      using merge_categories_applied [OF dr] by (simp add: st)
    show ?thesis using u a unfolding pulled_category_def by blast
  qed
  have rt: "categoryForPrimaryKey (onCategoryChange now ev cat r) (rc_id cat)
          = Some \<lparr>cat_id = rc_id cat, cat_name = rc_name cat, cat_icon = rc_icon cat,
                  userDefined = True,
                  createdAt = (case categoryForPrimaryKey r (rc_id cat) of
                                 None \<Rightarrow> rc_created_at cat
                               | Some existing \<Rightarrow> createdAt existing),
                  cat_updatedAt = rc_updated_at cat\<rparr>"
    if "ev = INSERT \<or> ev = UPDATE"
    using that lookup_upsert_pulled_cat [of "[]" now cat r "rc_id cat"]
    by (auto simp: onCategoryChange_def pulled_category_def)
  have del: "onCategoryChange now DELETE cat r = r"
    by (simp add: onCategoryChange_def)
  show ?thesis
    using ok select_categories_query [of uid rows] rt del by blast
qed

lemma run_upsert_transactions_cases:
  assumes "run_upsert_transactions t us sb = (x, sb')"
  shows "session_user sb' = session_user sb \<and> remote_categories sb' = remote_categories sb
     \<and> (x = Inr None
        \<or> ((\<exists>m. x = Inr (Some m)) \<and> remote_transactions sb' = remote_transactions sb)
        \<or> ((\<exists>e. x = Inl e) \<and> remote_transactions sb' = remote_transactions sb))"
proof -
  obtain y sb1 where n: "next_outcome sb = (y, sb1)" by (cases "next_outcome sb")
  note t = next_outcome_tables [OF n]
  show ?thesis
    using assms n t by (cases y) (auto simp: run_upsert_transactions_def)
qed

lemma run_upsert_categories_cases:
  assumes "run_upsert_categories t us sb = (x, sb')"
  shows "session_user sb' = session_user sb \<and> remote_transactions sb' = remote_transactions sb
     \<and> (x = Inr None
        \<or> ((\<exists>m. x = Inr (Some m)) \<and> remote_categories sb' = remote_categories sb)
        \<or> ((\<exists>e. x = Inl e) \<and> remote_categories sb' = remote_categories sb))"
proof -
  obtain y sb1 where n: "next_outcome sb = (y, sb1)" by (cases "next_outcome sb")
  note t = next_outcome_tables [OF n]
  show ?thesis
    using assms n t by (cases y) (auto simp: run_upsert_categories_def)
qed

lemma pushTransactions_try_cases:
  assumes "pushTransactions_try w = (x, w')"
  shows "phases_run w' = phases_run w \<and> clock w' = clock w \<and> store w' = store w
     \<and> remote_categories (backend w') = remote_categories (backend w)
     \<and> (x = Inr sync_ok
        \<or> ((\<exists>m. x = Inr (sync_failed m)) \<and> remote_transactions (backend w') = remote_transactions (backend w))
        \<or> ((\<exists>e. x = Inl e) \<and> remote_transactions (backend w') = remote_transactions (backend w)))"
proof -
  obtain u sb where g: "auth_getUser (backend w) = (u, sb)" by (cases "auth_getUser (backend w)")
  note gc = auth_getUser_cases [OF g]
  show ?thesis
  proof (cases u)
    case (Inl e)
    with assms g gc show ?thesis by (auto simp: pushTransactions_try_def)
  next
    case (Inr user)
    show ?thesis
    proof (cases user)
      case None
      with Inr assms g gc show ?thesis by (auto simp: pushTransactions_try_def)
    next
      case (Some uid)
      let ?us = "map (pushed_transaction uid (clock w)) (orderedTransactions (store w))"
      obtain y sb2 where q: "run_upsert_transactions (clock w) ?us sb = (y, sb2)"
        by (cases "run_upsert_transactions (clock w) ?us sb")
      note qc = run_upsert_transactions_cases [OF q]
      show ?thesis
        using assms g q gc qc Some Inr
        by (auto simp: pushTransactions_try_def Let_def)
    qed
  qed
qed

lemma pushCategories_try_cases:
  assumes "pushCategories_try w = (x, w')"
  shows "phases_run w' = phases_run w \<and> clock w' = clock w \<and> store w' = store w
     \<and> remote_transactions (backend w') = remote_transactions (backend w)
     \<and> (x = Inr sync_ok
        \<or> ((\<exists>m. x = Inr (sync_failed m)) \<and> remote_categories (backend w') = remote_categories (backend w))
        \<or> ((\<exists>e. x = Inl e) \<and> remote_categories (backend w') = remote_categories (backend w)))"
proof -
  obtain u sb where g: "auth_getUser (backend w) = (u, sb)" by (cases "auth_getUser (backend w)")
  note gc = auth_getUser_cases [OF g]
  show ?thesis
  proof (cases u)
    case (Inl e)
    with assms g gc show ?thesis by (auto simp: pushCategories_try_def)
  next
    case (Inr user)
    show ?thesis
    proof (cases user)
      case None
      with Inr assms g gc show ?thesis by (auto simp: pushCategories_try_def)
    next
      case (Some uid)
      let ?us = "map (pushed_category uid) (filter userDefined (orderedCategories (store w)))"
      obtain y sb2 where q: "run_upsert_categories (clock w) ?us sb = (y, sb2)"
        by (cases "run_upsert_categories (clock w) ?us sb")
      note qc = run_upsert_categories_cases [OF q]
      show ?thesis
        using assms g q gc qc Some Inr
        by (auto simp: pushCategories_try_def Let_def split: if_splits)
    qed
  qed
qed

lemma pushTransactions_cases:
  assumes "pushTransactions w = (y, w')"
  shows "phases_run w' = phases_run w @ [PushTransactions] \<and> clock w' = clock w \<and> store w' = store w
     \<and> remote_categories (backend w') = remote_categories (backend w)
     \<and> (y = Inr sync_ok
        \<or> ((\<exists>m. y = Inr (sync_failed m)) \<and> remote_transactions (backend w') = remote_transactions (backend w)))"
proof -
  let ?w0 = "w\<lparr>phases_run := phases_run w @ [PushTransactions]\<rparr>"
  obtain x w1 where t: "pushTransactions_try ?w0 = (x, w1)"
    by (cases "pushTransactions_try ?w0")
  note tc = pushTransactions_try_cases [OF t]
  from assms t have "catch_sync ''Failed to sync transactions'' (x, w1) = (y, w')"
    by (simp add: pushTransactions_def)
  note cc = catch_sync_cases [OF this]
  show ?thesis using tc cc by auto
qed

lemma pushCategories_cases:
  assumes "pushCategories w = (y, w')"
  shows "phases_run w' = phases_run w @ [PushCategories] \<and> clock w' = clock w \<and> store w' = store w
     \<and> remote_transactions (backend w') = remote_transactions (backend w)
     \<and> (y = Inr sync_ok
        \<or> ((\<exists>m. y = Inr (sync_failed m)) \<and> remote_categories (backend w') = remote_categories (backend w)))"
proof -
  let ?w0 = "w\<lparr>phases_run := phases_run w @ [PushCategories]\<rparr>"
  obtain x w1 where t: "pushCategories_try ?w0 = (x, w1)"
    by (cases "pushCategories_try ?w0")
  note tc = pushCategories_try_cases [OF t]
  from assms t have "catch_sync ''Failed to sync categories'' (x, w1) = (y, w')"
    by (simp add: pushCategories_def)
  note cc = catch_sync_cases [OF this]
  show ?thesis using tc cc by auto
qed

lemma sync_result_shape:
  "r = sync_ok \<or> (\<exists>m. r = sync_failed m) \<Longrightarrow> \<not> success r \<Longrightarrow> error r \<noteq> None"
  by (auto simp: sync_ok_def sync_failed_def)

text \<open>
  Claim C1. Name the results of the four phases run one after the other: pull categories
  on the initial state, pull transactions on the state that leaves, push categories,
  push transactions. No phase throws, so \<open>syncAll\<close> does not. If a phase fails, \<open>syncAll\<close>
  returns that phase's result, a failure with an error message, and the state that
  phase left: the phases entered are exactly the phases up to the failing one, in the
  order pull categories, pull transactions, push categories, push transactions, and no
  later phase has run. The failing phase itself changes neither the local store nor the
  remote tables, so the state returned carries the effects of the completed phases and
  nothing is rolled back. If the first three succeed, the result is that of push
  transactions.
\<close>

theorem syncAll_phases_in_order:
  assumes p1: "pullCategories w = (x1, w1)"
      and p2: "pullTransactions (sync_since isInitialSync lastSyncAt) w1 = (x2, w2)"
      and p3: "pushCategories w2 = (x3, w3)"
      and p4: "pushTransactions w3 = (x4, w4)"
  shows "\<exists>r1 r2 r3 r4. x1 = Inr r1 \<and> x2 = Inr r2 \<and> x3 = Inr r3 \<and> x4 = Inr r4
     \<and> (\<not> success r1 \<longrightarrow>
          syncAll isInitialSync lastSyncAt w = (Inr r1, w1) \<and> error r1 \<noteq> None
          \<and> phases_run w1 = phases_run w @ [PullCategories]
          \<and> store w1 = store w)
     \<and> (success r1 \<and> \<not> success r2 \<longrightarrow>
          syncAll isInitialSync lastSyncAt w = (Inr r2, w2) \<and> error r2 \<noteq> None
          \<and> phases_run w2 = phases_run w @ [PullCategories, PullTransactions]
          \<and> store w2 = store w1)
     \<and> (success r1 \<and> success r2 \<and> \<not> success r3 \<longrightarrow>
          syncAll isInitialSync lastSyncAt w = (Inr r3, w3) \<and> error r3 \<noteq> None
          \<and> phases_run w3 = phases_run w @ [PullCategories, PullTransactions, PushCategories]
          \<and> store w3 = store w2
          \<and> remote_categories (backend w3) = remote_categories (backend w2)
          \<and> remote_transactions (backend w3) = remote_transactions (backend w2))
     \<and> (success r1 \<and> success r2 \<and> success r3 \<longrightarrow>
          syncAll isInitialSync lastSyncAt w = (Inr r4, w4)
          \<and> phases_run w4
              = phases_run w @ [PullCategories, PullTransactions, PushCategories, PushTransactions]
          \<and> store w4 = store w2
          \<and> (\<not> success r4 \<longrightarrow> error r4 \<noteq> None
                \<and> remote_transactions (backend w4) = remote_transactions (backend w3)
                \<and> remote_categories (backend w4) = remote_categories (backend w3)))"
proof -
  note c1 = pullCategories_cases [OF p1]
  note c2 = pullTransactions_cases [OF p2]
  note c3 = pushCategories_cases [OF p3]
  note c4 = pushTransactions_cases [OF p4]
  from c1 obtain r1 where r1: "x1 = Inr r1" "r1 = sync_ok \<or> (\<exists>m. r1 = sync_failed m)" by auto
  from c2 obtain r2 where r2: "x2 = Inr r2" "r2 = sync_ok \<or> (\<exists>m. r2 = sync_failed m)" by auto
  from c3 obtain r3 where r3: "x3 = Inr r3" "r3 = sync_ok \<or> (\<exists>m. r3 = sync_failed m)" by auto
  from c4 obtain r4 where r4: "x4 = Inr r4" "r4 = sync_ok \<or> (\<exists>m. r4 = sync_failed m)" by auto
  have ok: "success sync_ok" by (simp add: sync_ok_def)
  have a: "syncAll isInitialSync lastSyncAt w = (Inr r1, w1) \<and> error r1 \<noteq> None
          \<and> phases_run w1 = phases_run w @ [PullCategories] \<and> store w1 = store w"
    if "\<not> success r1"
    using that p1 r1 c1 ok sync_result_shape [OF r1(2)]
    by (auto simp: syncAll_def)
  have b: "syncAll isInitialSync lastSyncAt w = (Inr r2, w2) \<and> error r2 \<noteq> None
          \<and> phases_run w2 = phases_run w @ [PullCategories, PullTransactions]
          \<and> store w2 = store w1"
    if "success r1" "\<not> success r2"
    using that p1 p2 r1(1) r2 c1 c2 ok sync_result_shape [OF r2(2)]
    by (auto simp: syncAll_def)
  have c: "syncAll isInitialSync lastSyncAt w = (Inr r3, w3) \<and> error r3 \<noteq> None
          \<and> phases_run w3 = phases_run w @ [PullCategories, PullTransactions, PushCategories]
          \<and> store w3 = store w2
          \<and> remote_categories (backend w3) = remote_categories (backend w2)
          \<and> remote_transactions (backend w3) = remote_transactions (backend w2)"
    if "success r1" "success r2" "\<not> success r3"
    using that p1 p2 p3 r1(1) r2(1) r3 c1 c2 c3 ok sync_result_shape [OF r3(2)]
    by (auto simp: syncAll_def)
  have d: "syncAll isInitialSync lastSyncAt w = (Inr r4, w4)
          \<and> phases_run w4
              = phases_run w @ [PullCategories, PullTransactions, PushCategories, PushTransactions]
          \<and> store w4 = store w2
          \<and> (\<not> success r4 \<longrightarrow> error r4 \<noteq> None
                \<and> remote_transactions (backend w4) = remote_transactions (backend w3)
                \<and> remote_categories (backend w4) = remote_categories (backend w3))"
    if "success r1" "success r2" "success r3"
    using that p1 p2 p3 p4 r1(1) r2(1) r3(1) r4 c1 c2 c3 c4 ok sync_result_shape [OF r4(2)]
    by (auto simp: syncAll_def)
  show ?thesis using r1(1) r2(1) r3(1) r4(1) a b c d by blast
qed

lemmas sync_defs =
  pullCategories_def pullCategories_try_def pullTransactions_def pullTransactions_try_def
  catch_sync_def auth_getUser_def run_select_categories_def run_select_transactions_def
  next_outcome_def select_categories_def select_transactions_def pullCategoriesQuery_def
  pullTransactionsQuery_def add_filter_def from_select_all_def merge_categories_def
  merge_transactions_def upsertCategory_def upsertTransaction_def categoryForPrimaryKey_def
  create_or_update_cat_def create_or_update_txn_def pulled_category_draft_def
  pulled_transaction_draft_def nullish_def sync_ok_def sync_failed_def Let_def

lemmas sample_defs =
  sample_world_def sample_backend_def sample_realm_def sample_cat_def sample_txn_def
  remote_cat_sample_def remote_txn_row_def failing_world_def pulled_cat_sample_def

theorem syncAll_phases_in_order_witness:
  "syncAll False (Some 20) failing_world
     = (Inr \<lparr>success = False, error = Some ''timeout''\<rparr>,
        \<lparr>store = \<lparr>transactions = [sample_txn], categories = [pulled_cat_sample]\<rparr>,
         backend = sample_backend
           \<lparr>queries_asked :=
              [\<lparr>q_table = ''categories'', q_filters = [Eq_user_id ''u1'', Is_deleted_at_null]\<rparr>,
               \<lparr>q_table = ''transactions'', q_filters = [Eq_user_id ''u1'', Gt_updated_at 20]\<rparr>]\<rparr>,
         clock = 100,
         phases_run = [PullCategories, PullTransactions]\<rparr>)"
proof -
  let ?w1 = "\<lparr>store = \<lparr>transactions = [sample_txn], categories = [pulled_cat_sample]\<rparr>,
         backend = sample_backend
           \<lparr>outcomes := [Succeeds, RespondsError ''timeout''],
            queries_asked := [\<lparr>q_table = ''categories'', q_filters = [Eq_user_id ''u1'', Is_deleted_at_null]\<rparr>]\<rparr>,
         clock = 100, phases_run = [PullCategories]\<rparr>"
  let ?w2 = "\<lparr>store = \<lparr>transactions = [sample_txn], categories = [pulled_cat_sample]\<rparr>,
         backend = sample_backend
           \<lparr>queries_asked :=
              [\<lparr>q_table = ''categories'', q_filters = [Eq_user_id ''u1'', Is_deleted_at_null]\<rparr>,
               \<lparr>q_table = ''transactions'', q_filters = [Eq_user_id ''u1'', Gt_updated_at 20]\<rparr>]\<rparr>,
         clock = 100, phases_run = [PullCategories, PullTransactions]\<rparr>"
  have p1: "pullCategories failing_world = (Inr sync_ok, ?w1)"
    by (simp add: sync_defs sample_defs)
  have p2: "pullTransactions (sync_since False (Some 20)) ?w1 = (Inr (sync_failed ''timeout''), ?w2)"
    by (simp add: sync_defs sample_defs sync_since_def)
  have p3: "pushCategories ?w2 = (fst (pushCategories ?w2), snd (pushCategories ?w2))"
    by simp
  have p4: "pushTransactions (snd (pushCategories ?w2))
      = (fst (pushTransactions (snd (pushCategories ?w2))), snd (pushTransactions (snd (pushCategories ?w2))))"
    by simp
  from syncAll_phases_in_order [OF p1 p2 p3 p4]
  have "syncAll False (Some 20) failing_world = (Inr (sync_failed ''timeout''), ?w2)"
    by (auto simp: sync_ok_def sync_failed_def)
  then show ?thesis by (simp add: sync_failed_def)
qed


theorem pulled_category_fields_witness:
  "categoryForPrimaryKey (onCategoryChange 100 INSERT remote_cat_sample empty_realm) ''c''
     = Some \<lparr>cat_id = ''c'', cat_name = ''Cafe'', cat_icon = ''cafe'', userDefined = True,
             createdAt = 9, cat_updatedAt = 12\<rparr>
   \<and> categoryForPrimaryKey (onCategoryChange 100 UPDATE remote_cat_sample sample_realm) ''c''
     = Some \<lparr>cat_id = ''c'', cat_name = ''Cafe'', cat_icon = ''cafe'', userDefined = True,
             createdAt = 5, cat_updatedAt = 12\<rparr>
   \<and> pullCategories sample_world
     = (Inr sync_ok,
        sample_world\<lparr>store := \<lparr>transactions = [sample_txn], categories = [pulled_cat_sample]\<rparr>,
                     backend := sample_backend\<lparr>queries_asked := [\<lparr>q_table = ''categories'', q_filters = [Eq_user_id ''u1'', Is_deleted_at_null]\<rparr>]\<rparr>,
                     phases_run := [PullCategories]\<rparr>)
   \<and> distinct (map rc_id (remote_categories (backend sample_world)))"
proof -
  have a: "categoryForPrimaryKey (onCategoryChange 100 INSERT remote_cat_sample empty_realm) ''c''
     = Some \<lparr>cat_id = ''c'', cat_name = ''Cafe'', cat_icon = ''cafe'', userDefined = True,
             createdAt = 9, cat_updatedAt = 12\<rparr>"
    using pulled_category_fields [of sample_world sync_ok sample_world "''u1''" "[]" INSERT 100
        remote_cat_sample empty_realm]
    by (simp add: remote_cat_sample_def empty_realm_def categoryForPrimaryKey_def)
  have b: "categoryForPrimaryKey (onCategoryChange 100 UPDATE remote_cat_sample sample_realm) ''c''
     = Some \<lparr>cat_id = ''c'', cat_name = ''Cafe'', cat_icon = ''cafe'', userDefined = True,
             createdAt = 5, cat_updatedAt = 12\<rparr>"
    using pulled_category_fields [of sample_world sync_ok sample_world "''u1''" "[]" UPDATE 100
        remote_cat_sample sample_realm]
    by (simp add: remote_cat_sample_def sample_realm_def sample_cat_def categoryForPrimaryKey_def)
  have c: "pullCategories sample_world
     = (Inr sync_ok,
        sample_world\<lparr>store := \<lparr>transactions = [sample_txn], categories = [pulled_cat_sample]\<rparr>,
                     backend := sample_backend\<lparr>queries_asked := [\<lparr>q_table = ''categories'', q_filters = [Eq_user_id ''u1'', Is_deleted_at_null]\<rparr>]\<rparr>,
                     phases_run := [PullCategories]\<rparr>)"
    by (simp add: sync_defs sample_defs)
  have d: "distinct (map rc_id (remote_categories (backend sample_world)))"
    by (simp add: sample_defs)
  show ?thesis using a b c d by blast
qed


section \<open>Validation: evaluating the double arithmetic\<close>

lemma ilog2_numeral:
  "ilog2 (numeral k) = (if numeral k < (2::int) then 0 else 1 + ilog2 (numeral k div 2))"
  by (subst ilog2.simps) simp

lemma ilog2_1: "ilog2 1 = 0"
  by (subst ilog2.simps) simp

lemma floor_rat_numeral_div: "\<lfloor>(numeral a :: rat) / numeral b\<rfloor> = numeral a div numeral b"
  using floor_divide_of_int_eq [of "numeral a" "numeral b", where ?'a = rat] by simp

lemma ceiling_rat_numeral_div: "\<lceil>(numeral a :: rat) / numeral b\<rceil> = - (- numeral a div numeral b)"
  using floor_divide_of_int_eq [of "- numeral a" "numeral b", where ?'a = rat]
  by (simp add: ceiling_def)

lemmas eval_defs = floor_log2_def pow2_def round_half_even_def Let_def
  ilog2_numeral ilog2_1 floor_rat_numeral_div ceiling_rat_numeral_div

lemma round_to_double_eval:
  assumes "x \<noteq> 0" "floor_log2 \<bar>x\<bar> = e0" "max e0 (- 1022) = e" "pow2 (e - 52) = ulp"
    "round_half_even (\<bar>x\<bar> / ulp) = m" "of_int m * ulp = y" "y < pow2 1024"
  shows "round_to_double x = Fin (if x < 0 then - y else y)"
proof -
  from assms(7) have "\<not> pow2 1024 \<le> y" by simp
  then show ?thesis
    unfolding round_to_double_def Let_def assms(2) assms(3) assms(4) assms(5) assms(6)
    using assms(1) by (simp only: if_False)
qed

lemma double_0_01: "round_to_double (1 / 100) = Fin (5764607523034235 / 576460752303423488)"
proof -
  have "round_to_double (1 / 100)
      = Fin (if (1 / 100 :: rat) < 0 then - (5764607523034235 / 576460752303423488) else 5764607523034235 / 576460752303423488)"
    by (rule round_to_double_eval [where ?e0.0 = "- 7" and e = "- 7" and ulp = "1 / 576460752303423488" and m = "5764607523034235"])
       (simp_all add: eval_defs)
  then show ?thesis by simp
qed

lemma double_0_01_times_100: "round_to_double (144115188075855875 / 144115188075855872) = Fin (1)"
proof -
  have "round_to_double (144115188075855875 / 144115188075855872)
      = Fin (if (144115188075855875 / 144115188075855872 :: rat) < 0 then - (1) else 1)"
    by (rule round_to_double_eval [where ?e0.0 = "0" and e = "0" and ulp = "1 / 4503599627370496" and m = "4503599627370496"])
       (simp_all add: eval_defs)
  then show ?thesis by simp
qed

lemma double_0_004: "round_to_double (1 / 250) = Fin (1152921504606847 / 288230376151711744)"
proof -
  have "round_to_double (1 / 250)
      = Fin (if (1 / 250 :: rat) < 0 then - (1152921504606847 / 288230376151711744) else 1152921504606847 / 288230376151711744)"
    by (rule round_to_double_eval [where ?e0.0 = "- 8" and e = "- 8" and ulp = "1 / 1152921504606846976" and m = "4611686018427388"])
       (simp_all add: eval_defs)
  then show ?thesis by simp
qed






lemma double_1250: "round_to_double (1250) = Fin (1250)"
proof -
  have "round_to_double (1250)
      = Fin (if (1250 :: rat) < 0 then - (1250) else 1250)"
    by (rule round_to_double_eval [where ?e0.0 = "10" and e = "10" and ulp = "1 / 4398046511104" and m = "5497558138880000"])
       (simp_all add: eval_defs)
  then show ?thesis by simp
qed

lemma double_1_005: "round_to_double (201 / 200) = Fin (1131529406376837 / 1125899906842624)"
proof -
  have "round_to_double (201 / 200)
      = Fin (if (201 / 200 :: rat) < 0 then - (1131529406376837 / 1125899906842624) else 1131529406376837 / 1125899906842624)"
    by (rule round_to_double_eval [where ?e0.0 = "0" and e = "0" and ulp = "1 / 4503599627370496" and m = "4526117625507348"])
       (simp_all add: eval_defs)
  then show ?thesis by simp
qed

lemma double_1_005_times_100: "round_to_double (28288235159420925 / 281474976710656) = Fin (7072058789855231 / 70368744177664)"
proof -
  have "round_to_double (28288235159420925 / 281474976710656)
      = Fin (if (28288235159420925 / 281474976710656 :: rat) < 0 then - (7072058789855231 / 70368744177664) else 7072058789855231 / 70368744177664)"
    by (rule round_to_double_eval [where ?e0.0 = "6" and e = "6" and ulp = "1 / 70368744177664" and m = "7072058789855231"])
       (simp_all add: eval_defs)
  then show ?thesis by simp
qed

section \<open>Amount validation\<close>

lemma round_to_double_0: "round_to_double 0 = Fin 0"
  by (simp only: round_to_double_def simp_thms if_True)

lemma normalize_0_01: "normalize_amount ''0.01'' = ''0.01''"
  by (simp add: normalize_amount_def strip_non_amount_chars_def is_digit_def)

lemma normalize_0: "normalize_amount ''0'' = ''0''"
  by (simp add: normalize_amount_def strip_non_amount_chars_def is_digit_def)

lemma normalize_0_004: "normalize_amount ''0.004'' = ''0.004''"
  by (simp add: normalize_amount_def strip_non_amount_chars_def is_digit_def)

lemma normalize_abc: "normalize_amount ''abc'' = []"
  by (simp add: normalize_amount_def strip_non_amount_chars_def is_digit_def)

lemma parseFloat_0_01: "parseFloat ''0.01'' = round_to_double (1 / 100)"
  by (simp add: parseFloat_def is_digit_def digits_value_def digit_value_def)

lemma parseFloat_0: "parseFloat ''0'' = round_to_double 0"
  by (simp add: parseFloat_def is_digit_def digits_value_def digit_value_def)

lemma parseFloat_0_004: "parseFloat ''0.004'' = round_to_double (1 / 250)"
  by (simp add: parseFloat_def is_digit_def digits_value_def digit_value_def)

lemma parseFloat_empty: "parseFloat [] = NaN"
  by (simp add: parseFloat_def)

lemma amount_pipe_0_01: "amount_pipe (Fin (5764607523034235 / 576460752303423488)) = Inr (Fin 1)"
  by (simp add: amount_pipe_def js_literal_def double_0_01 double_0_01_times_100 floor_rat_numeral_div)

lemma amount_pipe_0: "amount_pipe (Fin 0) = Inl [Custom ''Amount must be at least 0.01'']"
  by (simp add: amount_pipe_def js_literal_def double_0_01)

lemma amount_pipe_0_004:
  "amount_pipe (Fin (1152921504606847 / 288230376151711744)) = Inl [Custom ''Amount must be at least 0.01'']"
  by (simp add: amount_pipe_def js_literal_def double_0_01)

lemma amount_pipe_NaN: "amount_pipe NaN = Inl [Invalid_type (Some ''Amount must be a number'')]"
  by (simp add: amount_pipe_def)

lemma amountInputSchema_string:
  "s \<noteq> [] \<Longrightarrow> amountInputSchema (JString s) = amount_pipe (parseFloat (normalize_amount s))"
  by (cases s) (simp_all add: amountInputSchema_def amount_union_def amount_transform_def)

lemma amountInputSchema_number:
  "amountInputSchema (JNumber (Fin x)) = amount_pipe (Fin x)"
  by (simp add: amountInputSchema_def amount_union_def amount_transform_def)

lemma amountInputSchema_Inr:
  assumes "amountInputSchema a = Inr c"
  shows "amount_union a = Inr a \<and> js_isFinite (amount_transform a)
       \<and> js_ge (js_abs (amount_transform a)) (js_literal (1 / 100))
       \<and> c = js_round (js_mul (js_abs (amount_transform a)) (Fin 100))"
proof -
  from assms have u: "amount_union a = Inr a"
    by (cases a) (auto simp: amountInputSchema_def amount_union_def split: if_splits)
  with assms have p: "amount_pipe (amount_transform a) = Inr c"
    by (simp add: amountInputSchema_def)
  then have "js_isFinite (amount_transform a)
       \<and> js_ge (js_abs (amount_transform a)) (js_literal (1 / 100))
       \<and> c = js_round (js_mul (js_abs (amount_transform a)) (Fin 100))"
    by (auto simp: amount_pipe_def Let_def split: if_splits)
  with u show ?thesis by simp
qed

lemma amountInputSchema_accepts:
  assumes "amount_union a = Inr a" "js_isFinite (amount_transform a)"
    "js_ge (js_abs (amount_transform a)) (js_literal (1 / 100))"
  shows "amountInputSchema a = Inr (js_round (js_mul (js_abs (amount_transform a)) (Fin 100)))"
proof -
  from assms(2) have "amount_transform a \<noteq> NaN" by auto
  with assms show ?thesis
    by (simp add: amountInputSchema_def amount_pipe_def)
qed

lemma amountInputSchema_rejects:
  assumes "\<not> js_isFinite (amount_transform a) \<or> \<not> js_ge (js_abs (amount_transform a)) (js_literal (1 / 100))"
  shows "\<exists>issues. amountInputSchema a = Inl issues"
proof (cases "amountInputSchema a")
  case (Inl issues)
  then show ?thesis by blast
next
  case (Inr c)
  from amountInputSchema_Inr [OF this] assms show ?thesis by blast
qed

lemma validate_Inr_amount:
  assumes "validateTransactionDraft is_uuid parse_date now input = Inr v"
  shows "amountInputSchema (in_amount input) = Inr (v_amountCents v)"
  using assms
  by (auto simp: validateTransactionDraft_def Let_def split: sum.splits)

lemma validate_rejects_amount:
  assumes "amountInputSchema (in_amount input) = Inl issues"
  shows "\<exists>f. validateTransactionDraft is_uuid parse_date now input = Inl f"
  using assms
  by (auto simp: validateTransactionDraft_def Let_def split: sum.splits)

lemma amount_sign_discarded:
  "amountInputSchema (JNumber (Fin (- x))) = amountInputSchema (JNumber (Fin x))"
  by (simp add: amountInputSchema_number amount_pipe_def)

text \<open>
  Claim C3. Write \<open>n\<close> for the number the amount is turned into: a number input itself,
  and for a string the result of \<open>parseFloat\<close> on the cleaned string. If
  \<open>validateTransactionDraft\<close> accepts a draft, \<open>n\<close> is finite, \<open>abs(n) >= 0.01\<close>, and
  \<open>amountCents = Math.round(Math.abs(n) * 100)\<close>, in double arithmetic; if \<open>n\<close> is not
  finite (\<open>NaN\<close> included) or \<open>abs(n) < 0.01\<close> the draft is rejected; an amount that is a
  number or a non-empty string with \<open>n\<close> finite and \<open>abs(n) >= 0.01\<close> passes the amount schema
  with that value. The sign is discarded: \<open>-x\<close> and \<open>x\<close> give the same result. The constant
  \<open>0.01\<close> is the double \<open>5764607523034235 / 2^59\<close>. The amount \<open>0.01\<close>, as a number and as
  a string, yields \<open>amountCents = 1\<close>; \<open>0\<close>, \<open>0.004\<close> and \<open>"abc"\<close> fail.
\<close>

theorem amount_validation_boundary:
  "(validateTransactionDraft is_uuid parse_date now input = Inr v \<longrightarrow>
      js_isFinite (amount_transform (in_amount input))
      \<and> js_ge (js_abs (amount_transform (in_amount input))) (js_literal (1 / 100))
      \<and> v_amountCents v = js_round (js_mul (js_abs (amount_transform (in_amount input))) (Fin 100)))
   \<and> (\<not> js_isFinite (amount_transform (in_amount input))
        \<or> \<not> js_ge (js_abs (amount_transform (in_amount input))) (js_literal (1 / 100)) \<longrightarrow>
        (\<exists>f. validateTransactionDraft is_uuid parse_date now input = Inl f))
   \<and> (amount_union a = Inr a \<and> js_isFinite (amount_transform a)
        \<and> js_ge (js_abs (amount_transform a)) (js_literal (1 / 100)) \<longrightarrow>
        amountInputSchema a = Inr (js_round (js_mul (js_abs (amount_transform a)) (Fin 100))))
   \<and> amountInputSchema (JNumber (Fin (- x))) = amountInputSchema (JNumber (Fin x))
   \<and> js_literal (1 / 100) = Fin (5764607523034235 / 576460752303423488)
   \<and> amountInputSchema (JNumber (js_literal (1 / 100))) = Inr (Fin 1)
   \<and> amountInputSchema (JString ''0.01'') = Inr (Fin 1)
   \<and> amountInputSchema (JNumber (js_literal 0)) = Inl [Custom ''Amount must be at least 0.01'']
   \<and> amountInputSchema (JNumber (js_literal (4 / 1000))) = Inl [Custom ''Amount must be at least 0.01'']
   \<and> amountInputSchema (JString ''0'') = Inl [Custom ''Amount must be at least 0.01'']
   \<and> amountInputSchema (JString ''0.004'') = Inl [Custom ''Amount must be at least 0.01'']
   \<and> amountInputSchema (JString ''abc'') = Inl [Invalid_type (Some ''Amount must be a number'')]"
proof -
  have acc: "js_isFinite (amount_transform (in_amount input))
      \<and> js_ge (js_abs (amount_transform (in_amount input))) (js_literal (1 / 100))
      \<and> v_amountCents v = js_round (js_mul (js_abs (amount_transform (in_amount input))) (Fin 100))"
    if "validateTransactionDraft is_uuid parse_date now input = Inr v"
    using amountInputSchema_Inr [OF validate_Inr_amount [OF that]] by simp
  have rej: "\<exists>f. validateTransactionDraft is_uuid parse_date now input = Inl f"
    if "\<not> js_isFinite (amount_transform (in_amount input))
        \<or> \<not> js_ge (js_abs (amount_transform (in_amount input))) (js_literal (1 / 100))"
    using amountInputSchema_rejects [OF that] validate_rejects_amount by blast
  have lit: "js_literal (1 / 100) = Fin (5764607523034235 / 576460752303423488)"
    by (simp add: js_literal_def double_0_01)
  have e1: "amountInputSchema (JNumber (js_literal (1 / 100))) = Inr (Fin 1)"
    by (simp only: lit amountInputSchema_number amount_pipe_0_01)
  have e2: "amountInputSchema (JString ''0.01'') = Inr (Fin 1)"
    by (simp add: amountInputSchema_string normalize_0_01 parseFloat_0_01 double_0_01 amount_pipe_0_01)
  have e3: "amountInputSchema (JNumber (js_literal 0)) = Inl [Custom ''Amount must be at least 0.01'']"
    by (simp only: js_literal_def round_to_double_0 amountInputSchema_number amount_pipe_0)
  have "js_literal (4 / 1000) = Fin (1152921504606847 / 288230376151711744)"
    using double_0_004 by (simp add: js_literal_def)
  then have e4: "amountInputSchema (JNumber (js_literal (4 / 1000)))
      = Inl [Custom ''Amount must be at least 0.01'']"
    by (simp only: amountInputSchema_number amount_pipe_0_004)
  have e5: "amountInputSchema (JString ''0'') = Inl [Custom ''Amount must be at least 0.01'']"
    by (simp add: amountInputSchema_string normalize_0 parseFloat_0 round_to_double_0 amount_pipe_0)
  have e6: "amountInputSchema (JString ''0.004'') = Inl [Custom ''Amount must be at least 0.01'']"
    by (simp add: amountInputSchema_string normalize_0_004 parseFloat_0_004 double_0_004 amount_pipe_0_004)
  have e7: "amountInputSchema (JString ''abc'') = Inl [Invalid_type (Some ''Amount must be a number'')]"
    by (simp add: amountInputSchema_string normalize_abc parseFloat_empty amount_pipe_NaN)
  show ?thesis
    using acc rej amountInputSchema_accepts [of a] amount_sign_discarded [of x] lit e1 e2 e3 e4 e5 e6 e7
    by blast
qed


lemma validate_sample_draft:
  "amountInputSchema a = Inr c \<Longrightarrow>
     validateTransactionDraft no_uuid no_date now (sample_draft a)
       = Inr \<lparr>v_id = None, v_type = Expense, v_amountCents = c, v_categoryId = ''c'', v_timestamp = now\<rparr>"
  by (simp add: validateTransactionDraft_def sample_draft_def id_schema_def transactionTypeSchema_def
      categoryId_schema_def timestampSchema_def)

lemma validate_sample_draft_rejected:
  "amountInputSchema a = Inl issues \<Longrightarrow>
     validateTransactionDraft no_uuid no_date now (sample_draft a)
       = Inl (ZodError (map (Pair ''amount'') issues))"
  by (simp add: validateTransactionDraft_def sample_draft_def id_schema_def transactionTypeSchema_def
      categoryId_schema_def timestampSchema_def issues_at_def)

theorem amount_validation_boundary_witness:
  "validateTransactionDraft no_uuid no_date 77 (sample_draft (JString ''0.01''))
     = Inr \<lparr>v_id = None, v_type = Expense, v_amountCents = Fin 1, v_categoryId = ''c'', v_timestamp = 77\<rparr>
   \<and> validateTransactionDraft no_uuid no_date 77 (sample_draft (JString ''abc''))
     = Inl (ZodError [(''amount'', Invalid_type (Some ''Amount must be a number''))])
   \<and> validateTransactionDraft no_uuid no_date 77 (sample_draft (JNumber (js_literal (4 / 1000))))
     = Inl (ZodError [(''amount'', Custom ''Amount must be at least 0.01'')])"
proof -
  note inst = amount_validation_boundary [of no_uuid no_date 77 "sample_draft (JString ''0.01'')"
      "\<lparr>v_id = None, v_type = Expense, v_amountCents = Fin 1, v_categoryId = ''c'', v_timestamp = 77\<rparr>"
      "JString ''0.01''" 5]
  from inst have a: "amountInputSchema (JString ''0.01'') = Inr (Fin 1)" by blast
  from inst have b: "amountInputSchema (JString ''abc'') = Inl [Invalid_type (Some ''Amount must be a number'')]"
    by blast
  from inst have c: "amountInputSchema (JNumber (js_literal (4 / 1000)))
      = Inl [Custom ''Amount must be at least 0.01'']"
    by blast
  show ?thesis
    using validate_sample_draft [OF a, of 77] validate_sample_draft_rejected [OF b, of 77]
      validate_sample_draft_rejected [OF c, of 77]
    by simp
qed

section \<open>Amount strings\<close>







lemma amount_pipe_12_5: "amount_pipe (Fin (25 / 2)) = Inr (Fin 1250)"
  by (simp add: amount_pipe_def js_literal_def double_0_01 double_1250 floor_rat_numeral_div)








































text \<open>
  Double arithmetic shows in the result: \<open>"1.005"\<close> denotes 1.005, the nearest double
  times 100 rounds to the double just below 100.5, and the amount is 100 cents.
\<close>

lemma normalize_1_005: "normalize_amount ''1.005'' = ''1.005''"
  by (simp add: normalize_amount_def strip_non_amount_chars_def is_digit_def)

lemma parseFloat_1_005: "parseFloat ''1.005'' = round_to_double (201 / 200)"
  by (simp add: parseFloat_def is_digit_def digits_value_def digit_value_def)

lemma amount_1_005: "amountInputSchema (JString ''1.005'') = Inr (Fin 100)"
  by (simp add: amountInputSchema_string normalize_1_005 parseFloat_1_005 double_1_005
      amount_pipe_def js_literal_def double_0_01 double_1_005_times_100 floor_rat_numeral_div)


end
